theory Spec2Isabelle
  imports
    Main
    "HOL-Library.Word"
    "HOL-Library.Char_ord"
    "HOL-Library.List_Lexorder"
    "HOL-Library.Multiset"
    "HOL-Library.Sublist"
begin

unbundle bit_operations_syntax

chapter \<open>The reconciliation engine and the project synchronizer\<close>

text \<open>
  A shallow embedding of two source files:
  \<^item> \<^verbatim>\<open>api/pkg/controller/cluster/resources.go\<close>: the per-kind ensure loops, the
    three-way patch helper and the checksum functions;
  \<^item> \<^verbatim>\<open>pkg/controller/master-controller-manager/project-synchronizer/controller.go\<close>:
    the fan-out of a Project to every seed and the deletion gate.

  Go values are modelled as follows. A \<^verbatim>\<open>string\<close> and a \<^verbatim>\<open>[]byte\<close> are lists of bytes
  (\<^typ>\<open>string\<close>). A Go map that the code iterates over is an association list with
  distinct keys whose order is the order in which \<^verbatim>\<open>range\<close> visits the entries, an
  order Go leaves unspecified. An \<^verbatim>\<open>error\<close> is a value of the datatype \<open>error\<close>, and a
  nil error is \<^const>\<open>None\<close>.
\<close>

section \<open>Errors\<close>

text \<open>
  The reason of an API status error (\<^verbatim>\<open>metav1.StatusReason\<close>); only the reasons
  the code distinguishes or that an API server commonly answers are listed.
\<close>

datatype status_reason = NotFound | AlreadyExists | InternalError

text \<open>
  \<open>StatusError\<close> is an error answered by a lister or a client; \<open>ErrorString\<close> is
  \<^verbatim>\<open>fmt.Errorf\<close> with \<^verbatim>\<open>%v\<close> (the cause is flattened into the message);
  \<open>WrapError\<close> is \<^verbatim>\<open>fmt.Errorf\<close> with \<^verbatim>\<open>%w\<close> (the message, and the wrapped cause);
  \<open>ErrWaitTimeout\<close> is \<^verbatim>\<open>wait.ErrWaitTimeout\<close>; \<open>Panic\<close> is a run-time panic (an
  assignment to an entry of a nil map, a nil pointer dereference), which ends the pass.
\<close>

datatype error =
    StatusError status_reason string
  | ErrorString string
  | WrapError string error
  | ErrWaitTimeout
  | Panic string

fun Error :: "error \<Rightarrow> string" where
  "Error (StatusError r msg) = msg"
| "Error (ErrorString msg) = msg"
| "Error (WrapError msg cause) = msg"
| "Error ErrWaitTimeout = ''timed out waiting for the condition''"
| "Error (Panic msg) = msg"

text \<open>\<^verbatim>\<open>errors.IsNotFound\<close>: the reason of the status error, looked for through the wrappers.\<close>

fun IsNotFound :: "error \<Rightarrow> bool" where
  "IsNotFound (StatusError r msg) = (r = NotFound)"
| "IsNotFound (WrapError msg cause) = IsNotFound cause"
| "IsNotFound (ErrorString msg) = False"
| "IsNotFound ErrWaitTimeout = False"
| "IsNotFound (Panic msg) = False"

text \<open>\<^verbatim>\<open>ctrlruntimeclient.IgnoreNotFound\<close>: nil for nil and for NotFound, the error otherwise.\<close>

fun IgnoreNotFound :: "error option \<Rightarrow> error option" where
  "IgnoreNotFound None = None"
| "IgnoreNotFound (Some err) = (if IsNotFound err then None else Some err)"

section \<open>Checksums (resources.go, lines 703 to 728)\<close>

text \<open>
  \<^verbatim>\<open>crc32.ChecksumIEEE\<close> of the Go standard library, by the definition of CRC-32 with
  the reflected IEEE polynomial: the register starts with all bits set, every byte is
  XORed into its low byte and shifted out bit by bit, and the result is complemented.
\<close>

definition crc32_shift :: "32 word \<Rightarrow> 32 word" where
  "crc32_shift c = (if bit c 0 then drop_bit 1 c XOR 0xEDB88320 else drop_bit 1 c)"

definition crc32_update :: "32 word \<Rightarrow> char \<Rightarrow> 32 word" where
  "crc32_update c b = (crc32_shift ^^ 8) (c XOR of_nat (of_char b))"

definition ChecksumIEEE :: "string \<Rightarrow> 32 word" where
  "ChecksumIEEE bs = NOT (foldl crc32_update 0xFFFFFFFF bs)"

text \<open>\<^verbatim>\<open>fmt.Sprintf("%v", n)\<close> for an unsigned integer: its decimal digits.\<close>

definition digit :: "nat \<Rightarrow> char" where
  "digit d = ''0123456789'' ! d"

function decimal :: "nat \<Rightarrow> string" where
  "decimal n = (if n < 10 then [digit n] else decimal (n div 10) @ [digit (n mod 10)])"
  by pat_completeness auto
termination
  by (relation "measure id") auto

declare decimal.simps [simp del]

text \<open>
  A Go map: \<open>mapKeys\<close> are its keys in the order \<^verbatim>\<open>range\<close> visits them, \<open>mapIndex\<close> is
  \<^verbatim>\<open>m[k]\<close> (the zero value for a key that is absent) and \<open>mapLookup\<close> is the
  two-valued \<^verbatim>\<open>v, ok := m[k]\<close>.
\<close>

type_synonym gomap = "(string \<times> string) list"

definition mapKeys :: "gomap \<Rightarrow> string list" where
  "mapKeys m = map fst m"

definition mapLookup :: "gomap \<Rightarrow> string \<Rightarrow> string option" where
  "mapLookup m k = map_of m k"

definition mapIndex :: "gomap \<Rightarrow> string \<Rightarrow> string" where
  "mapIndex m k = (case map_of m k of Some v \<Rightarrow> v | None \<Rightarrow> [])"

text \<open>\<^verbatim>\<open>m[k] = v\<close>: the entry is replaced where the key is present, added otherwise.\<close>

definition mapSet :: "gomap \<Rightarrow> string \<Rightarrow> string \<Rightarrow> gomap" where
  "mapSet m k v = (if k \<in> set (map fst m) then map (\<lambda>(k', v'). if k' = k then (k', v) else (k', v')) m
     else m @ [(k, v)])"

text \<open>\<^verbatim>\<open>fmt.Sprintf("%s:%s", k, v)\<close>.\<close>

definition keyVal :: "string \<Rightarrow> string \<Rightarrow> string" where
  "keyVal k v = k @ '':'' @ v"

text \<open>
  \<^verbatim>\<open>getChecksumForStringSlice\<close>: \<^verbatim>\<open>sort.Strings\<close> orders the strings bytewise, the
  buffer concatenates them with nothing in between.
\<close>

definition getChecksumForStringSlice :: "string list \<Rightarrow> string" where
  "getChecksumForStringSlice stringSlice =
     decimal (unat (ChecksumIEEE (concat (sort stringSlice))))"

definition getChecksumForMapStringString :: "gomap \<Rightarrow> string" where
  "getChecksumForMapStringString data =
     getChecksumForStringSlice (map (\<lambda>k. keyVal k (mapIndex data k)) (mapKeys data))"

definition getChecksumForMapStringByteSlice :: "gomap \<Rightarrow> string" where
  "getChecksumForMapStringByteSlice data =
     getChecksumForStringSlice (map (\<lambda>k. keyVal k (mapIndex data k)) (mapKeys data))"

section \<open>Managed objects, the lister and the client\<close>

text \<open>
  The kinds \<^verbatim>\<open>resources.go\<close> reconciles. The Go types of the objects (Service,
  Deployment, Secret, ...) come from the Kubernetes libraries; one record covers what
  the code reads of them: the name, the annotations (nil is \<^const>\<open>None\<close>), the data of a
  Secret or ConfigMap, the pointer \<^verbatim>\<open>Spec.Selector\<close> with its \<^verbatim>\<open>MatchLabels\<close> (a nil
  pointer is \<^const>\<open>None\<close>), and the rest of the object as an opaque value.
\<close>

datatype kind =
    ServiceAccountKind | RoleKind | RoleBindingKind | ClusterRoleBindingKind | ServiceKind
  | SecretKind | ConfigMapKind | DeploymentKind | StatefulSetKind | PodDisruptionBudgetKind

record object =
  Name :: string
  Annotations :: "gomap option"
  Data :: gomap
  Selector :: "gomap option"
  Rest :: string

text \<open>Reading a nil map gives what reading an empty map gives.\<close>

definition entries :: "gomap option \<Rightarrow> gomap" where
  "entries m = (case m of None \<Rightarrow> [] | Some es \<Rightarrow> es)"

text \<open>
  \<^verbatim>\<open>equality.Semantic.DeepEqual\<close>: two maps are equal when they hold the same entries
  (a nil map equals an empty one), two pointers when both are nil or both point to
  equal values.
\<close>

definition mapsDeepEqual :: "gomap \<Rightarrow> gomap \<Rightarrow> bool" where
  "mapsDeepEqual a b \<longleftrightarrow> set a = set b"

definition selectorsDeepEqual :: "gomap option \<Rightarrow> gomap option \<Rightarrow> bool" where
  "selectorsDeepEqual a b =
     (case a of
        None \<Rightarrow> (case b of None \<Rightarrow> True | Some lb \<Rightarrow> False)
      | Some la \<Rightarrow> (case b of None \<Rightarrow> False | Some lb \<Rightarrow> mapsDeepEqual la lb))"

definition DeepEqual :: "object \<Rightarrow> object \<Rightarrow> bool" where
  "DeepEqual a b \<longleftrightarrow>
     Name a = Name b
     \<and> mapsDeepEqual (entries (Annotations a)) (entries (Annotations b))
     \<and> mapsDeepEqual (Data a) (Data b)
     \<and> selectorsDeepEqual (Selector a) (Selector b)
     \<and> Rest a = Rest b"

text \<open>An object is stored under its kind, its namespace and its name.\<close>

type_synonym key = "kind \<times> string \<times> string"

datatype propagation = DeletePropagationOrphan | DeletePropagationBackground
  | DeletePropagationForeground

datatype patch_type = JSONPatchType | MergePatchType | StrategicMergePatchType

text \<open>
  The calls on \<^verbatim>\<open>cc.kubeClient\<close>: the kind, the namespace, and the object (Create,
  Update), or the name, the patch type and the patch (Patch), or the name and the
  propagation policy of the delete options (Delete).
\<close>

datatype "write" =
    Create kind string object
  | Update kind string object
  | Patch kind string string patch_type string
  | Delete kind string string "propagation option"

text \<open>
  The state of a pass: the objects of the API server (\<open>live\<close>), the objects the listers
  show (\<open>cache\<close>, filled by the informers and never written by the client), the calls
  issued on the client so far (\<open>writes\<close>), the calls of \<^verbatim>\<open>countSeedResourceUpdate\<close>
  (\<open>counts\<close>) and the milliseconds spent waiting (\<open>clock\<close>). Log output is not part of the
  state.
\<close>

record state =
  live :: "key \<Rightarrow> object option"
  cache :: "key \<Rightarrow> object option"
  writes :: "write list"
  counts :: "(string \<times> string) list"
  clock :: nat

text \<open>
  What the code calls and these files do not define: the message with which the API
  server refuses a call for a reason of its own (\<open>clientFault\<close>: an outage, a timeout, a
  rejected object) and with which a lister fails (\<open>listerFault\<close>), the
  milliseconds an informer takes to show a created object in its lister
  (\<open>publishDelay\<close>), the order in which \<^verbatim>\<open>range\<close> visits the entries of a map literal
  (\<open>rangeOrder\<close>, as indices), and the library functions \<^verbatim>\<open>json.Marshal\<close>,
  \<^verbatim>\<open>jsonmergepatch.CreateThreeWayJSONMergePatch\<close> and the application of a merge patch
  by the API server.
\<close>

record env =
  clientFault :: "write \<Rightarrow> string option"
  listerFault :: "key \<Rightarrow> string option"
  publishDelay :: "key \<Rightarrow> nat"
  rangeOrder :: "nat list"
  Marshal :: "object \<Rightarrow> error + string"
  CreateThreeWayJSONMergePatch :: "string \<Rightarrow> string \<Rightarrow> string \<Rightarrow> error + string"
  applyMergePatch :: "string \<Rightarrow> object \<Rightarrow> object"

definition notFound :: "string \<Rightarrow> error" where
  "notFound name = StatusError NotFound (name @ '' not found'')"

definition refused :: "string \<Rightarrow> error" where
  "refused msg = StatusError InternalError msg"

definition alreadyExists :: "string \<Rightarrow> error" where
  "alreadyExists name = StatusError AlreadyExists (name @ '' already exists'')"

text \<open>A lister's \<^verbatim>\<open>Get\<close>: the cached object, or NotFound, or the lister's own failure.\<close>

definition listerGet :: "env \<Rightarrow> kind \<Rightarrow> string \<Rightarrow> string \<Rightarrow> state \<Rightarrow> error + object" where
  "listerGet e k ns name s =
     (case listerFault e (k, ns, name) of
        Some msg \<Rightarrow> Inl (refused msg)
      | None \<Rightarrow> (case cache s (k, ns, name) of
                  None \<Rightarrow> Inl (notFound name)
                | Some obj \<Rightarrow> Inr obj))"

text \<open>
  The client's calls. Each call is recorded; the server refuses it with the fault of
  the environment, or with AlreadyExists or NotFound as the stored objects demand, or
  carries it out on the live objects. A delete removes the object.
\<close>

definition issue :: "write \<Rightarrow> state \<Rightarrow> state" where
  "issue w s = s\<lparr>writes := writes s @ [w]\<rparr>"

definition clientCreate :: "env \<Rightarrow> kind \<Rightarrow> string \<Rightarrow> object \<Rightarrow> state \<Rightarrow> error option \<times> state" where
  "clientCreate e k ns obj s =
     (let s' = issue (Create k ns obj) s in
      case clientFault e (Create k ns obj) of
        Some msg \<Rightarrow> (Some (refused msg), s')
      | None \<Rightarrow>
          (case live s (k, ns, Name obj) of
             Some old \<Rightarrow> (Some (alreadyExists (Name obj)), s')
           | None \<Rightarrow> (None, s'\<lparr>live := (live s)((k, ns, Name obj) := Some obj)\<rparr>)))"

definition clientUpdate :: "env \<Rightarrow> kind \<Rightarrow> string \<Rightarrow> object \<Rightarrow> state \<Rightarrow> error option \<times> state" where
  "clientUpdate e k ns obj s =
     (let s' = issue (Update k ns obj) s in
      case clientFault e (Update k ns obj) of
        Some msg \<Rightarrow> (Some (refused msg), s')
      | None \<Rightarrow>
          (case live s (k, ns, Name obj) of
             None \<Rightarrow> (Some (notFound (Name obj)), s')
           | Some old \<Rightarrow> (None, s'\<lparr>live := (live s)((k, ns, Name obj) := Some obj)\<rparr>)))"

definition clientPatch ::
  "env \<Rightarrow> kind \<Rightarrow> string \<Rightarrow> string \<Rightarrow> patch_type \<Rightarrow> string \<Rightarrow> state \<Rightarrow> error option \<times> state" where
  "clientPatch e k ns name pt patch s =
     (let s' = issue (Patch k ns name pt patch) s in
      case clientFault e (Patch k ns name pt patch) of
        Some msg \<Rightarrow> (Some (refused msg), s')
      | None \<Rightarrow>
          (case live s (k, ns, name) of
             None \<Rightarrow> (Some (notFound name), s')
           | Some old \<Rightarrow>
               (None, s'\<lparr>live := (live s)((k, ns, name) := Some (applyMergePatch e patch old))\<rparr>)))"

definition clientDelete ::
  "env \<Rightarrow> kind \<Rightarrow> string \<Rightarrow> string \<Rightarrow> propagation option \<Rightarrow> state \<Rightarrow> error option \<times> state" where
  "clientDelete e k ns name policy s =
     (let s' = issue (Delete k ns name policy) s in
      case clientFault e (Delete k ns name policy) of
        Some msg \<Rightarrow> (Some (refused msg), s')
      | None \<Rightarrow>
          (case live s (k, ns, name) of
             None \<Rightarrow> (Some (notFound name), s')
           | Some old \<Rightarrow> (None, s'\<lparr>live := (live s)((k, ns, name) := None)\<rparr>)))"


text \<open>
  Modelled from the spec: \<^verbatim>\<open>countSeedResourceUpdate\<close> is not in these files; "each
  successful create/update emits a counter keyed by (kind, name)".
\<close>

definition countSeedResourceUpdate :: "string \<Rightarrow> string \<Rightarrow> state \<Rightarrow> state" where
  "countSeedResourceUpdate kindLabel name s = s\<lparr>counts := counts s @ [(kindLabel, name)]\<rparr>"

text \<open>
  \<^verbatim>\<open>wait.Poll(interval, timeout, condition)\<close> of the Kubernetes library, with the time in
  milliseconds: it waits for the interval, runs the condition, and goes on until the
  condition holds or fails or the timeout is used up. The result is the error and the
  time that has passed.
\<close>

fun pollFrom :: "nat \<Rightarrow> nat \<Rightarrow> nat \<Rightarrow> (nat \<Rightarrow> error + bool) \<Rightarrow> error option \<times> nat" where
  "pollFrom 0 interval elapsed condition = (Some ErrWaitTimeout, elapsed)"
| "pollFrom (Suc n) interval elapsed condition =
     (case condition (elapsed + interval) of
        Inl err \<Rightarrow> (Some err, elapsed + interval)
      | Inr ok \<Rightarrow>
          if ok then (None, elapsed + interval)
          else pollFrom n interval (elapsed + interval) condition)"

definition Poll :: "nat \<Rightarrow> nat \<Rightarrow> (nat \<Rightarrow> error + bool) \<Rightarrow> error option \<times> nat" where
  "Poll interval timeout condition = pollFrom (timeout div interval) interval 0 condition"

text \<open>
  The control flow of a loop body: it goes on with the next entry (\<^verbatim>\<open>continue\<close>, or
  the end of the body), or it leaves the function (\<^verbatim>\<open>return\<close>). \<open>iterate\<close> runs the
  body on the entries in their order until one returns, and \<open>forEach\<close> is
  \<^verbatim>\<open>for _, x := range xs { body }; return nil\<close>.
\<close>

datatype flow = Continue | Return "error option"

fun iterate :: "('a \<Rightarrow> 's \<Rightarrow> flow \<times> 's) \<Rightarrow> 'a list \<Rightarrow> 's \<Rightarrow> flow \<times> 's" where
  "iterate body [] s = (Continue, s)"
| "iterate body (x # xs) s =
     (case body x s of
        (Continue, s') \<Rightarrow> iterate body xs s'
      | (Return r, s') \<Rightarrow> (Return r, s'))"

definition forEach :: "('a \<Rightarrow> 's \<Rightarrow> flow \<times> 's) \<Rightarrow> 'a list \<Rightarrow> 's \<Rightarrow> error option \<times> 's" where
  "forEach body xs s =
     (case iterate body xs s of
        (Continue, s') \<Rightarrow> (None, s')
      | (Return r, s') \<Rightarrow> (r, s'))"

section \<open>The cluster controller (resources.go)\<close>

definition annotationPrefix :: string where
  "annotationPrefix = ''kubermatic.io/''"

definition lastAppliedConfigAnnotation :: string where
  "lastAppliedConfigAnnotation = annotationPrefix @ ''last-applied-configuration''"

definition checksumAnnotation :: string where
  "checksumAnnotation = annotationPrefix @ ''checksum''"

text \<open>What the code reads of a \<^verbatim>\<open>kubermaticv1.Cluster\<close>.\<close>

record Cluster =
  ClusterName :: string
  DatacenterName :: string
  MachineNetworks :: "string list"
  NamespaceName :: string

text \<open>
  Modelled from the spec: \<^verbatim>\<open>resources.TemplateData\<close> and \<^verbatim>\<open>resources.NewTemplateData\<close>
  are not in these files; the template data "supplies per-cluster configuration
  (datacenter record, registry overrides, network ranges, disk sizing) that Creators
  consume". It holds the cluster, its datacenter, the seed datacenter, the listers (what
  they show when the data is built: no loop below changes it before its last creator
  has run) and the options of the controller.
\<close>

record TemplateData =
  tdCluster :: Cluster
  tdDatacenter :: string
  tdSeedDatacenter :: string
  tdListers :: "key \<Rightarrow> object option"
  tdOptions :: string

text \<open>
  A creator of the component packages:
  \<^verbatim>\<open>func(data *TemplateData, existing *T) (*T, error)\<close>. The creators themselves are
  not in these files; \<open>component\<close> names the ones \<^verbatim>\<open>resources.go\<close> lists, and the
  record \<open>resources\<close> gives each its function, each name constant of the package
  \<^verbatim>\<open>resources\<close> its value, and the functions \<^verbatim>\<open>resources.ServiceAccount\<close> and
  \<^verbatim>\<open>GetClusterRef\<close>.
\<close>

type_synonym creator = "TemplateData \<Rightarrow> object option \<Rightarrow> error + object"

datatype component =
    apiserver_Service | apiserver_ExternalService | prometheus_Service | openvpn_Service
  | etcd_DiscoveryService | etcd_ClientService | dns_Service
  | prometheus_Role | prometheus_RoleBinding
  | machinecontroller_Deployment | openvpn_Deployment | apiserver_Deployment
  | scheduler_Deployment | controllermanager_Deployment | dns_Deployment
  | kubestatemetrics_Deployment | ipamcontroller_Deployment
  | etcd_TLSCertificate | apiserver_EtcdClientCertificate | apiserver_ServiceAccountKey
  | apiserver_FrontProxyClientCertificate
  | cloudconfig_ConfigMap | openvpn_ServerClientConfigsConfigMap | prometheus_ConfigMap
  | dns_ConfigMap
  | prometheus_StatefulSet | etcd_StatefulSet
  | etcd_PodDisruptionBudget

datatype resource_name =
    CASecretName | FrontProxyCASecretName | ApiserverTLSSecretName
  | KubeletClientCertificatesSecretName | AdminKubeconfigSecretName
  | SchedulerKubeconfigSecretName | MachineControllerKubeconfigSecretName
  | ControllerManagerKubeconfigSecretName | KubeStateMetricsKubeconfigSecretName
  | TokensSecretName | OpenVPNServerCertificatesSecretName
  | OpenVPNClientCertificatesSecretName | ImagePullSecretName
  | IPAMControllerKubeconfigSecretName
  | EtcdTLSCertificateSecretName | ApiserverEtcdClientCertificateSecretName
  | ServiceAccountKeySecretName | ApiserverFrontProxyClientCertificateSecretName
  | PrometheusServiceAccountName

record resources =
  creatorOf :: "component \<Rightarrow> creator"
  nameOf :: "resource_name \<Rightarrow> string"
  ServiceAccount :: "string \<Rightarrow> string \<Rightarrow> object option \<Rightarrow> object"
  GetClusterRef :: "TemplateData \<Rightarrow> string"

text \<open>
  The generators of the deprecated secrets path are methods of the controller that are
  not in these files: \<^verbatim>\<open>func(*Cluster, *Secret) (*Secret, string, error)\<close>. They read
  the controller's listers, so the model hands them what the listers show.
\<close>

type_synonym generator =
  "(key \<Rightarrow> object option) \<Rightarrow> Cluster \<Rightarrow> object option \<Rightarrow> error + (object \<times> string)"

datatype secret_generator =
    getRootCACertSecret | getFrontProxyCACertSecret | getApiserverServingCertificatesSecret
  | getKubeletClientCertificatesSecret | getAdminKubeconfigSecret
  | getSchedulerKubeconfigSecret | getMachineControllerKubeconfigSecret
  | getControllerManagerKubeconfigSecret | getKubeStateMetricsKubeconfigSecret
  | getTokenUsersSecret | getOpenVPNServerCertificates
  | getOpenVPNInternalClientCertificates | getImagePullSecret
  | getIPAMControllerKubeconfigSecret

text \<open>
  The fields of the controller the code reads: the datacenters by name, the name of the
  seed datacenter, the options handed on to the template data (registry, node port
  range, node access network, etcd disk size, Prometheus rules), and the generators.
\<close>

record Controller =
  dcs :: "string \<Rightarrow> string option"
  dc :: string
  options :: string
  generatorOf :: "secret_generator \<Rightarrow> generator"

definition NewTemplateData ::
  "Cluster \<Rightarrow> string \<Rightarrow> string \<Rightarrow> (key \<Rightarrow> object option) \<Rightarrow> string \<Rightarrow> TemplateData" where
  "NewTemplateData c datacenter seedDatacenter listers opts =
     \<lparr>tdCluster = c, tdDatacenter = datacenter, tdSeedDatacenter = seedDatacenter,
      tdListers = listers, tdOptions = opts\<rparr>"

definition getClusterTemplateData :: "Controller \<Rightarrow> Cluster \<Rightarrow> state \<Rightarrow> error + TemplateData" where
  "getClusterTemplateData cc c s =
     (case dcs cc (DatacenterName c) of
        None \<Rightarrow> Inl (ErrorString (''failed to get datacenter '' @ DatacenterName c))
      | Some datacenter \<Rightarrow> Inr (NewTemplateData c datacenter (dc cc) (cache s) (options cc)))"

subsection \<open>getPatch (lines 159 to 176)\<close>

definition getPatch :: "env \<Rightarrow> object \<Rightarrow> object \<Rightarrow> error + string" where
  "getPatch e currentObj updateObj =
     (case Marshal e currentObj of
        Inl err \<Rightarrow> Inl err
      | Inr currentData \<Rightarrow>
          (case Marshal e updateObj of
             Inl err \<Rightarrow> Inl err
           | Inr modifiedData \<Rightarrow>
               (let originalData = mapIndex (entries (Annotations currentObj)) lastAppliedConfigAnnotation
                in CreateThreeWayJSONMergePatch e originalData modifiedData currentData)))"

subsection \<open>ensureSecrets, the deprecated path (lines 179 to 262)\<close>

record secretOp =
  opName :: string
  gen :: generator

definition secretOps :: "resources \<Rightarrow> Controller \<Rightarrow> Cluster \<Rightarrow> secretOp list" where
  "secretOps r cc c =
     [\<lparr>opName = nameOf r CASecretName, gen = generatorOf cc getRootCACertSecret\<rparr>,
      \<lparr>opName = nameOf r FrontProxyCASecretName, gen = generatorOf cc getFrontProxyCACertSecret\<rparr>,
      \<lparr>opName = nameOf r ApiserverTLSSecretName,
       gen = generatorOf cc getApiserverServingCertificatesSecret\<rparr>,
      \<lparr>opName = nameOf r KubeletClientCertificatesSecretName,
       gen = generatorOf cc getKubeletClientCertificatesSecret\<rparr>,
      \<lparr>opName = nameOf r AdminKubeconfigSecretName, gen = generatorOf cc getAdminKubeconfigSecret\<rparr>,
      \<lparr>opName = nameOf r SchedulerKubeconfigSecretName,
       gen = generatorOf cc getSchedulerKubeconfigSecret\<rparr>,
      \<lparr>opName = nameOf r MachineControllerKubeconfigSecretName,
       gen = generatorOf cc getMachineControllerKubeconfigSecret\<rparr>,
      \<lparr>opName = nameOf r ControllerManagerKubeconfigSecretName,
       gen = generatorOf cc getControllerManagerKubeconfigSecret\<rparr>,
      \<lparr>opName = nameOf r KubeStateMetricsKubeconfigSecretName,
       gen = generatorOf cc getKubeStateMetricsKubeconfigSecret\<rparr>,
      \<lparr>opName = nameOf r TokensSecretName, gen = generatorOf cc getTokenUsersSecret\<rparr>,
      \<lparr>opName = nameOf r OpenVPNServerCertificatesSecretName,
       gen = generatorOf cc getOpenVPNServerCertificates\<rparr>,
      \<lparr>opName = nameOf r OpenVPNClientCertificatesSecretName,
       gen = generatorOf cc getOpenVPNInternalClientCertificates\<rparr>,
      \<lparr>opName = nameOf r ImagePullSecretName, gen = generatorOf cc getImagePullSecret\<rparr>]
     @ (if length (MachineNetworks c) > 0
        then [\<lparr>opName = nameOf r IPAMControllerKubeconfigSecretName,
               gen = generatorOf cc getIPAMControllerKubeconfigSecret\<rparr>]
        else [])"

text \<open>
  What the lister shows \<open>t\<close> milliseconds after a create: the created object once the
  informer's delay has passed.
\<close>

definition published :: "env \<Rightarrow> key \<Rightarrow> nat \<Rightarrow> state \<Rightarrow> state" where
  "published e k t s = (if publishDelay e k \<le> t then s\<lparr>cache := (cache s)(k := live s k)\<rparr> else s)"

text \<open>
  The closure \<^verbatim>\<open>secretExistsInLister\<close>, run \<open>t\<close> milliseconds after the create: both
  error branches answer \<^verbatim>\<open>false, nil\<close>.
\<close>

definition secretExistsInLister :: "env \<Rightarrow> Cluster \<Rightarrow> object \<Rightarrow> state \<Rightarrow> nat \<Rightarrow> error + bool" where
  "secretExistsInLister e c generatedSecret s t =
     (case listerGet e SecretKind (NamespaceName c) (Name generatedSecret)
             (published e (SecretKind, NamespaceName c, Name generatedSecret) t s) of
        Inl err \<Rightarrow> Inr False
      | Inr obj \<Rightarrow> Inr True)"

definition ensureSecrets_body :: "env \<Rightarrow> Cluster \<Rightarrow> secretOp \<Rightarrow> state \<Rightarrow> flow \<times> state" where
  "ensureSecrets_body e c op s =
     (case (case listerGet e SecretKind (NamespaceName c) (opName op) s of
              Inl err \<Rightarrow>
                if \<not> IsNotFound err
                then Inl (ErrorString (''failed to get secret '' @ opName op @ '' from lister: '' @ Error err))
                else Inr None
            | Inr found \<Rightarrow> Inr (Some found)) of
        Inl err \<Rightarrow> (Return (Some err), s)
      | Inr existingSecret \<Rightarrow>
          (case gen op (cache s) c existingSecret of
             Inl err \<Rightarrow>
               (Return (Some (ErrorString (''failed to generate Secret '' @ opName op @ '': '' @ Error err))), s)
           | Inr (generated, currentJSON) \<Rightarrow>
               (case Annotations generated of
                  None \<Rightarrow> (Return (Some (Panic ''assignment to entry in nil map'')), s)
                | Some annotations \<Rightarrow>
                    (let generatedSecret = generated
                           \<lparr>Annotations := Some (mapSet annotations lastAppliedConfigAnnotation currentJSON),
                            Name := opName op\<rparr>
                     in case existingSecret of
                          None \<Rightarrow>
                            (case clientCreate e SecretKind (NamespaceName c) generatedSecret s of
                               (Some err, s') \<Rightarrow>
                                 (Return (Some (ErrorString
                                    (''failed to create secret for '' @ opName op @ '': '' @ Error err))), s')
                             | (None, s') \<Rightarrow>
                                 (case Poll 100 30000 (secretExistsInLister e c generatedSecret s') of
                                    (Some err, t) \<Rightarrow>
                                      (Return (Some (ErrorString
                                         (''failed waiting for secret '' @ [CHR 0x27] @ Name generatedSecret
                                          @ [CHR 0x27] @ '' to exist in the lister: '' @ Error err))),
                                       s'\<lparr>clock := clock s' + t\<rparr>)
                                  | (None, t) \<Rightarrow>
                                      (Continue,
                                       (published e (SecretKind, NamespaceName c, Name generatedSecret) t s')
                                         \<lparr>clock := clock s' + t\<rparr>)))
                        | Some existing \<Rightarrow>
                            if mapIndex (entries (Annotations existing)) lastAppliedConfigAnnotation \<noteq> currentJSON
                            then (case getPatch e existing generatedSecret of
                                    Inl err \<Rightarrow> (Return (Some err), s)
                                  | Inr patch \<Rightarrow>
                                      (case clientPatch e SecretKind (NamespaceName c) (opName op)
                                              MergePatchType patch s of
                                         (Some err, s') \<Rightarrow>
                                           (Return (Some (ErrorString
                                              (''failed to patch secret '' @ [CHR 0x27] @ opName op
                                               @ [CHR 0x27] @ '': '' @ Error err))), s')
                                       | (None, s') \<Rightarrow>
                                           (Continue, countSeedResourceUpdate ''secret'' (opName op) s')))
                            else (Continue, s)))))"

definition ensureSecrets :: "env \<Rightarrow> resources \<Rightarrow> Controller \<Rightarrow> Cluster \<Rightarrow> state \<Rightarrow> error option \<times> state" where
  "ensureSecrets e r cc c s = forEach (ensureSecrets_body e c) (secretOps r cc c) s"

subsection \<open>ensureServices (lines 264 to 320)\<close>




subsection \<open>ensureCheckServiceAccounts (lines 322 to 361)\<close>



subsection \<open>ensureRoles (lines 363 to 408)\<close>



subsection \<open>ensureRoleBindings (lines 410 to 455)\<close>



subsection \<open>ensureClusterRoleBindings (lines 457 to 500)\<close>



subsection \<open>ensureDeployments (lines 502 to 570)\<close>

definition GetDeploymentCreators :: "resources \<Rightarrow> Cluster option \<Rightarrow> creator list" where
  "GetDeploymentCreators r c =
     map (creatorOf r)
       [machinecontroller_Deployment, openvpn_Deployment, apiserver_Deployment,
        scheduler_Deployment, controllermanager_Deployment, dns_Deployment,
        kubestatemetrics_Deployment]
     @ (case c of
          None \<Rightarrow> []
        | Some cluster \<Rightarrow>
            if length (MachineNetworks cluster) > 0 then [creatorOf r ipamcontroller_Deployment]
            else [])"

definition ensureDeployments_body :: "env \<Rightarrow> TemplateData \<Rightarrow> Cluster \<Rightarrow> creator \<Rightarrow> state \<Rightarrow> flow \<times> state" where
  "ensureDeployments_body e data c create s =
     (case create data None of
        Inl err \<Rightarrow> (Return (Some (ErrorString (''failed to build Deployment: '' @ Error err))), s)
      | Inr dep \<Rightarrow>
          (case listerGet e DeploymentKind (NamespaceName c) (Name dep) s of
             Inl err \<Rightarrow>
               if \<not> IsNotFound err then (Return (Some err), s)
               else (case clientCreate e DeploymentKind (NamespaceName c) dep s of
                       (Some err', s') \<Rightarrow>
                         (Return (Some (ErrorString
                            (''failed to create Deployment '' @ Name dep @ '': '' @ Error err'))), s')
                     | (None, s') \<Rightarrow> (Continue, s'))
           | Inr existing \<Rightarrow>
               (case create data (Some existing) of
                  Inl err \<Rightarrow> (Return (Some (ErrorString (''failed to build Deployment: '' @ Error err))), s)
                | Inr dep \<Rightarrow>
                    if DeepEqual dep existing then (Continue, s)
                    else (case Selector dep of
                            None \<Rightarrow> (Return (Some (Panic ''nil pointer dereference'')), s)
                          | Some matchLabels \<Rightarrow>
                              (case Selector existing of
                                 None \<Rightarrow> (Return (Some (Panic ''nil pointer dereference'')), s)
                               | Some existingMatchLabels \<Rightarrow>
                                   if \<not> mapsDeepEqual matchLabels existingMatchLabels
                                   then (case clientDelete e DeploymentKind (NamespaceName c) (Name dep)
                                                (Some DeletePropagationForeground) s of
                                           (err', s') \<Rightarrow> (Return err', s'))
                                   else (case clientUpdate e DeploymentKind (NamespaceName c) dep s of
                                           (Some err', s') \<Rightarrow>
                                             (Return (Some (ErrorString
                                                (''failed to update Deployment '' @ Name dep @ '': ''
                                                 @ Error err'))), s')
                                         | (None, s') \<Rightarrow>
                                             (Continue,
                                              countSeedResourceUpdate ''deployment'' (Name dep) s')))))))"

definition ensureDeployments :: "env \<Rightarrow> resources \<Rightarrow> Controller \<Rightarrow> Cluster \<Rightarrow> state \<Rightarrow> error option \<times> state" where
  "ensureDeployments e r cc c s =
     (case getClusterTemplateData cc c s of
        Inl err \<Rightarrow> (Some err, s)
      | Inr data \<Rightarrow> forEach (ensureDeployments_body e data c) (GetDeploymentCreators r (Some c)) s)"

subsection \<open>ensureSecretsV2 (lines 572 to 634)\<close>



text \<open>
  \<^verbatim>\<open>if x.Annotations == nil { x.Annotations = map[string]string{} }\<close> followed by
  \<^verbatim>\<open>x.Annotations[checksumAnnotation] = checksum\<close>.
\<close>

definition setChecksumAnnotation :: "string \<Rightarrow> object \<Rightarrow> object" where
  "setChecksumAnnotation checksum x =
     x\<lparr>Annotations := Some (mapSet (entries (Annotations x)) checksumAnnotation checksum)\<rparr>"



subsection \<open>ensureConfigMaps (lines 636 to 701)\<close>


text \<open>
  The object the lister hands out is the cached one: giving it an empty annotation map
  where it had none changes what the lister shows, not what the API server holds.
\<close>

definition initAnnotations :: "string \<Rightarrow> object \<Rightarrow> state \<Rightarrow> state" where
  "initAnnotations ns existing s =
     (case Annotations existing of
        None \<Rightarrow>
          s\<lparr>cache := (cache s)((ConfigMapKind, ns, Name existing) := Some (existing\<lparr>Annotations := Some []\<rparr>))\<rparr>
      | Some annotations \<Rightarrow> s)"

definition ensureConfigMaps_body :: "env \<Rightarrow> TemplateData \<Rightarrow> Cluster \<Rightarrow> creator \<Rightarrow> state \<Rightarrow> flow \<times> state" where
  "ensureConfigMaps_body e data c create s =
     (case create data None of
        Inl err \<Rightarrow> (Return (Some (ErrorString (''failed to build ConfigMap: '' @ Error err))), s)
      | Inr built \<Rightarrow>
          (let cm = setChecksumAnnotation (getChecksumForMapStringString (Data built)) built in
           case listerGet e ConfigMapKind (NamespaceName c) (Name cm) s of
             Inl err \<Rightarrow>
               if \<not> IsNotFound err then (Return (Some err), s)
               else (case clientCreate e ConfigMapKind (NamespaceName c) cm s of
                       (Some err', s') \<Rightarrow>
                         (Return (Some (ErrorString
                            (''failed to create ConfigMap '' @ Name cm @ '': '' @ Error err'))), s')
                     | (None, s') \<Rightarrow> (Continue, s'))
           | Inr existing \<Rightarrow>
               (case create data (Some existing) of
                  Inl err \<Rightarrow>
                    (Return (Some (ErrorString (''failed to build ConfigMap: '' @ Error err))), s)
                | Inr rebuilt \<Rightarrow>
                    (let cm = setChecksumAnnotation (getChecksumForMapStringString (Data rebuilt)) rebuilt;
                         s0 = initAnnotations (NamespaceName c) existing s
                     in if (case mapLookup (entries (Annotations existing)) checksumAnnotation of
                              None \<Rightarrow> False
                            | Some annotationVal \<Rightarrow>
                                annotationVal = mapIndex (entries (Annotations cm)) checksumAnnotation)
                        then (Continue, s0)
                        else (case clientUpdate e ConfigMapKind (NamespaceName c) cm s0 of
                                (Some err', s') \<Rightarrow>
                                  (Return (Some (ErrorString
                                     (''failed to update ConfigMap '' @ Name cm @ '': '' @ Error err'))), s')
                              | (None, s') \<Rightarrow>
                                  (Continue, countSeedResourceUpdate ''configmap'' (Name cm) s'))))))"


subsection \<open>ensureStatefulSets (lines 730 to 787)\<close>

definition GetStatefulSetCreators :: "resources \<Rightarrow> creator list" where
  "GetStatefulSetCreators r = map (creatorOf r) [prometheus_StatefulSet, etcd_StatefulSet]"

definition ensureStatefulSets_body :: "env \<Rightarrow> TemplateData \<Rightarrow> Cluster \<Rightarrow> creator \<Rightarrow> state \<Rightarrow> flow \<times> state" where
  "ensureStatefulSets_body e data c create s =
     (case create data None of
        Inl err \<Rightarrow> (Return (Some (ErrorString (''failed to build StatefulSet: '' @ Error err))), s)
      | Inr set' \<Rightarrow>
          (case listerGet e StatefulSetKind (NamespaceName c) (Name set') s of
             Inl err \<Rightarrow>
               if \<not> IsNotFound err then (Return (Some err), s)
               else (case clientCreate e StatefulSetKind (NamespaceName c) set' s of
                       (Some err', s') \<Rightarrow>
                         (Return (Some (ErrorString
                            (''failed to create StatefulSet '' @ Name set' @ '': '' @ Error err'))), s')
                     | (None, s') \<Rightarrow> (Continue, s'))
           | Inr existing \<Rightarrow>
               (case create data (Some existing) of
                  Inl err \<Rightarrow> (Return (Some (ErrorString (''failed to build StatefulSet: '' @ Error err))), s)
                | Inr set' \<Rightarrow>
                    if DeepEqual set' existing then (Continue, s)
                    else (case Selector set' of
                            None \<Rightarrow> (Return (Some (Panic ''nil pointer dereference'')), s)
                          | Some matchLabels \<Rightarrow>
                              (case Selector existing of
                                 None \<Rightarrow> (Return (Some (Panic ''nil pointer dereference'')), s)
                               | Some existingMatchLabels \<Rightarrow>
                                   if \<not> mapsDeepEqual matchLabels existingMatchLabels
                                   then (case clientDelete e StatefulSetKind (NamespaceName c) (Name set')
                                                (Some DeletePropagationForeground) s of
                                           (err', s') \<Rightarrow> (Return err', s'))
                                   else (case clientUpdate e StatefulSetKind (NamespaceName c) set' s of
                                           (Some err', s') \<Rightarrow>
                                             (Return (Some (ErrorString
                                                (''failed to update StatefulSet '' @ Name set' @ '': ''
                                                 @ Error err'))), s')
                                         | (None, s') \<Rightarrow>
                                             (Continue,
                                              countSeedResourceUpdate ''statefulset'' (Name set') s')))))))"

definition ensureStatefulSets :: "env \<Rightarrow> resources \<Rightarrow> Controller \<Rightarrow> Cluster \<Rightarrow> state \<Rightarrow> error option \<times> state" where
  "ensureStatefulSets e r cc c s =
     (case getClusterTemplateData cc c s of
        Inl err \<Rightarrow> (Some err, s)
      | Inr data \<Rightarrow> forEach (ensureStatefulSets_body e data c) (GetStatefulSetCreators r) s)"

subsection \<open>ensurePodDisruptionBudgets (lines 789 to 839)\<close>




subsection \<open>ensureResourcesAreDeployed (lines 47 to 104)\<close>



section \<open>The project synchronizer (controller.go)\<close>

text \<open>
  What the code reads of a \<^verbatim>\<open>kubermaticv1.Project\<close>. The deletion timestamp is
  \<^const>\<open>None\<close> for nil; the spec and the status are opaque.
\<close>

record Project =
  ProjectName :: string
  DeletionTimestamp :: "nat option"
  Finalizers :: "string list"
  ProjectSpec :: string
  ProjectStatus :: string

text \<open>\<^verbatim>\<open>DeletionTimestamp.IsZero()\<close>: nil, or the zero time.\<close>

definition IsZero :: "nat option \<Rightarrow> bool" where
  "IsZero t = (case t of None \<Rightarrow> True | Some n \<Rightarrow> n = 0)"

text \<open>
  Modelled from the spec: the helpers \<^verbatim>\<open>HasFinalizer\<close>, \<^verbatim>\<open>AddFinalizer\<close> and
  \<^verbatim>\<open>RemoveFinalizer\<close> of the package \<^verbatim>\<open>kubernetes\<close> are not in these files; the
  finalizer is a "marker blocking final deletion until cleanup logic completes", one of
  the names in the object's list of finalizers.
\<close>

definition HasFinalizer :: "Project \<Rightarrow> string \<Rightarrow> bool" where
  "HasFinalizer project name \<longleftrightarrow> name \<in> set (Finalizers project)"

definition AddFinalizer :: "Project \<Rightarrow> string \<Rightarrow> Project" where
  "AddFinalizer project name =
     (if name \<in> set (Finalizers project) then project
      else project\<lparr>Finalizers := Finalizers project @ [name]\<rparr>)"

definition RemoveFinalizer :: "Project \<Rightarrow> string \<Rightarrow> Project" where
  "RemoveFinalizer project name = project\<lparr>Finalizers := removeAll name (Finalizers project)\<rparr>"

text \<open>
  A client is a handle on a cluster, named by the cluster it talks to; on a shared
  master/seed system the master client and a seed client name the same cluster. The
  calls that change a cluster:
\<close>

type_synonym client = string

datatype request =
    UpdateProject Project
  | PatchProject Project Project
  | PatchProjectStatus Project Project
  | DeleteProject Project

text \<open>
  The world the reconciler acts on: the Projects every cluster stores, the calls
  issued so far, the events recorded and the errors logged (\<^verbatim>\<open>log.Error\<close>,
  \<^verbatim>\<open>utilruntime.HandleError\<close>). Debug output is not part of it.
\<close>

record world =
  projects :: "client \<Rightarrow> Project list"
  calls :: "(client \<times> request) list"
  events :: "(string \<times> string \<times> string \<times> string) list"
  errorLog :: "error list"

text \<open>
  What the code imports and these files do not define: the name of the cleanup
  finalizer, the function \<^verbatim>\<open>reconciling.ReconcileKubermaticV1Projects\<close> applied to the
  creator of the Project, and the message with which a cluster refuses a call for a
  reason of its own (an outage, a timeout, a rejected object).
\<close>

record deps =
  SeedProjectCleanupFinalizer :: string
  ReconcileKubermaticV1Projects :: "Project \<Rightarrow> client \<Rightarrow> world \<Rightarrow> error option \<times> world"
  requestFault :: "client \<Rightarrow> request \<Rightarrow> string option"
  getFault :: "client \<Rightarrow> string \<Rightarrow> string option"
  listFault :: "client \<Rightarrow> string option"

record reconciler =
  masterClient :: client
  masterAPIClient :: client
  seedClients :: "(string \<times> client) list"

text \<open>
  The reconciler \<^verbatim>\<open>Add\<close> builds (lines 60 to 70): both master clients come from the
  master manager, the seed clients from the seed managers. The registration of the
  controller and of its watches is not modelled.
\<close>

definition Add :: "client \<Rightarrow> (string \<times> client) list \<Rightarrow> reconciler" where
  "Add masterManager seedManagers =
     \<lparr>masterClient = masterManager, masterAPIClient = masterManager,
      seedClients = seedManagers\<rparr>"

definition called :: "client \<Rightarrow> request \<Rightarrow> world \<Rightarrow> world" where
  "called cl rq w = w\<lparr>calls := calls w @ [(cl, rq)]\<rparr>"

definition lookupProject :: "string \<Rightarrow> Project list \<Rightarrow> Project option" where
  "lookupProject name ps = find (\<lambda>p. ProjectName p = name) ps"

text \<open>
  What a cluster does with an object it is to store: an object that is being deleted
  and has no finalizer left is removed, any other replaces the stored one.
\<close>

definition settle :: "Project \<Rightarrow> Project list \<Rightarrow> Project list" where
  "settle project ps =
     (if \<not> IsZero (DeletionTimestamp project) \<and> Finalizers project = []
      then filter (\<lambda>p. ProjectName p \<noteq> ProjectName project) ps
      else map (\<lambda>p. if ProjectName p = ProjectName project then project else p) ps)"

definition stored :: "client \<Rightarrow> Project \<Rightarrow> world \<Rightarrow> world" where
  "stored cl project w = w\<lparr>projects := (projects w)(cl := settle project (projects w cl))\<rparr>"

definition clientGet :: "deps \<Rightarrow> client \<Rightarrow> string \<Rightarrow> world \<Rightarrow> error + Project" where
  "clientGet d cl name w =
     (case getFault d cl name of
        Some msg \<Rightarrow> Inl (refused msg)
      | None \<Rightarrow> (case lookupProject name (projects w cl) of
                  None \<Rightarrow> Inl (notFound name)
                | Some project \<Rightarrow> Inr project))"

definition clientList :: "deps \<Rightarrow> client \<Rightarrow> world \<Rightarrow> error + Project list" where
  "clientList d cl w =
     (case listFault d cl of
        Some msg \<Rightarrow> Inl (refused msg)
      | None \<Rightarrow> Inr (projects w cl))"

text \<open>An update replaces the object; the deletion timestamp is the cluster's to set.\<close>

definition projectUpdate :: "deps \<Rightarrow> client \<Rightarrow> Project \<Rightarrow> world \<Rightarrow> error option \<times> world" where
  "projectUpdate d cl project w =
     (let w' = called cl (UpdateProject project) w in
      case requestFault d cl (UpdateProject project) of
        Some msg \<Rightarrow> (Some (refused msg), w')
      | None \<Rightarrow>
          (case lookupProject (ProjectName project) (projects w cl) of
             None \<Rightarrow> (Some (notFound (ProjectName project)), w')
           | Some old \<Rightarrow>
               (None, stored cl (project\<lparr>DeletionTimestamp := DeletionTimestamp old\<rparr>) w')))"

text \<open>
  \<^verbatim>\<open>Patch(ctx, obj, MergeFrom(old))\<close>: the merge patch holds what differs between the
  old and the new object, and the cluster applies it to the object it stores. Through
  the resource itself it reaches the finalizers and the spec, through the status
  subresource the status.
\<close>

definition mergeFrom :: "Project \<Rightarrow> Project \<Rightarrow> Project \<Rightarrow> Project" where
  "mergeFrom old new current =
     current\<lparr>Finalizers := (if Finalizers new = Finalizers old then Finalizers current else Finalizers new),
             ProjectSpec := (if ProjectSpec new = ProjectSpec old then ProjectSpec current else ProjectSpec new)\<rparr>"

definition mergeStatusFrom :: "Project \<Rightarrow> Project \<Rightarrow> Project \<Rightarrow> Project" where
  "mergeStatusFrom old new current =
     current\<lparr>ProjectStatus :=
               (if ProjectStatus new = ProjectStatus old then ProjectStatus current
                else ProjectStatus new)\<rparr>"

definition projectPatch :: "deps \<Rightarrow> client \<Rightarrow> Project \<Rightarrow> Project \<Rightarrow> world \<Rightarrow> error option \<times> world" where
  "projectPatch d cl project old w =
     (let w' = called cl (PatchProject project old) w in
      case requestFault d cl (PatchProject project old) of
        Some msg \<Rightarrow> (Some (refused msg), w')
      | None \<Rightarrow>
          (case lookupProject (ProjectName project) (projects w cl) of
             None \<Rightarrow> (Some (notFound (ProjectName project)), w')
           | Some current \<Rightarrow> (None, stored cl (mergeFrom old project current) w')))"

definition projectStatusPatch ::
  "deps \<Rightarrow> client \<Rightarrow> Project \<Rightarrow> Project \<Rightarrow> world \<Rightarrow> error option \<times> world" where
  "projectStatusPatch d cl project old w =
     (let w' = called cl (PatchProjectStatus project old) w in
      case requestFault d cl (PatchProjectStatus project old) of
        Some msg \<Rightarrow> (Some (refused msg), w')
      | None \<Rightarrow>
          (case lookupProject (ProjectName project) (projects w cl) of
             None \<Rightarrow> (Some (notFound (ProjectName project)), w')
           | Some current \<Rightarrow> (None, stored cl (mergeStatusFrom old project current) w')))"

text \<open>
  A delete marks the stored object as being deleted (the time of a delete is not zero);
  the object goes once no finalizer holds it.
\<close>

definition projectDelete :: "deps \<Rightarrow> client \<Rightarrow> Project \<Rightarrow> world \<Rightarrow> error option \<times> world" where
  "projectDelete d cl project w =
     (let w' = called cl (DeleteProject project) w in
      case requestFault d cl (DeleteProject project) of
        Some msg \<Rightarrow> (Some (refused msg), w')
      | None \<Rightarrow>
          (case lookupProject (ProjectName project) (projects w cl) of
             None \<Rightarrow> (Some (notFound (ProjectName project)), w')
           | Some current \<Rightarrow>
               (None, stored cl (current\<lparr>DeletionTimestamp :=
                                   (if IsZero (DeletionTimestamp current) then Some 1
                                    else DeletionTimestamp current)\<rparr>) w')))"

subsection \<open>syncAllSeeds (lines 169 to 181)\<close>

text \<open>
  \<open>seedClients\<close> is a Go map; the list holds its entries in the order in which this pass
  visits them.
\<close>

definition syncAllSeeds_body ::
  "(client \<Rightarrow> Project \<Rightarrow> world \<Rightarrow> error option \<times> world) \<Rightarrow> Project \<Rightarrow> string \<times> client \<Rightarrow> world
    \<Rightarrow> flow \<times> world" where
  "syncAllSeeds_body action project seed w =
     (case seed of (seedName, seedClient) \<Rightarrow>
        (case action seedClient project w of
           (Some err, w') \<Rightarrow>
             (Return (Some (WrapError
                (''failed syncing project for seed '' @ seedName @ '': '' @ Error err) err)), w')
         | (None, w') \<Rightarrow> (Continue, w')))"

definition syncAllSeeds ::
  "reconciler \<Rightarrow> Project \<Rightarrow> (client \<Rightarrow> Project \<Rightarrow> world \<Rightarrow> error option \<times> world) \<Rightarrow> world
    \<Rightarrow> error option \<times> world" where
  "syncAllSeeds r project action w = forEach (syncAllSeeds_body action project) (seedClients r) w"

subsection \<open>handleDeletion (lines 148 to 167)\<close>

definition deleteAction :: "deps \<Rightarrow> client \<Rightarrow> Project \<Rightarrow> world \<Rightarrow> error option \<times> world" where
  "deleteAction d seedClusterClient project w =
     (case projectDelete d seedClusterClient project w of
        (err, w') \<Rightarrow> (IgnoreNotFound err, w'))"

definition handleDeletion :: "deps \<Rightarrow> reconciler \<Rightarrow> Project \<Rightarrow> world \<Rightarrow> error option \<times> world" where
  "handleDeletion d r project w =
     (case syncAllSeeds r project (deleteAction d) w of
        (Some err, w') \<Rightarrow> (Some err, w')
      | (None, w') \<Rightarrow>
          (let finalizer = SeedProjectCleanupFinalizer d in
           if HasFinalizer project finalizer
           then (let oldProject = project;
                     project' = RemoveFinalizer project finalizer
                 in case projectPatch d (masterClient r) project' oldProject w' of
                      (err, w'') \<Rightarrow>
                        (case IgnoreNotFound err of
                           Some err' \<Rightarrow>
                             (Some (WrapError (''failed to remove project finalizer '' @ finalizer
                                               @ '': '' @ Error err') err'), w'')
                         | None \<Rightarrow> (None, w'')))
           else (None, w')))"

subsection \<open>Reconcile (lines 94 to 146)\<close>

definition syncAction :: "deps \<Rightarrow> string \<Rightarrow> client \<Rightarrow> Project \<Rightarrow> world \<Rightarrow> error option \<times> world" where
  "syncAction d request seedClusterClient project w =
     (case ReconcileKubermaticV1Projects d project seedClusterClient w of
        (Some err, w1) \<Rightarrow>
          (Some (WrapError (''failed to reconcile project: '' @ Error err) err), w1)
      | (None, w1) \<Rightarrow>
          (case clientGet d seedClusterClient request w1 of
             Inl err \<Rightarrow>
               (Some (WrapError (''failed to fetch project on seed cluster: '' @ Error err) err), w1)
           | Inr seedProject \<Rightarrow>
               (let oldProject = seedProject;
                    seedProject' = seedProject\<lparr>ProjectStatus := ProjectStatus project\<rparr>
                in case projectStatusPatch d seedClusterClient seedProject' oldProject w1 of
                     (Some err, w2) \<Rightarrow>
                       (Some (WrapError
                          (''failed to update project status on seed cluster: '' @ Error err) err), w2)
                   | (None, w2) \<Rightarrow> (None, w2))))"

definition Eventf :: "Project \<Rightarrow> string \<Rightarrow> string \<Rightarrow> string \<Rightarrow> world \<Rightarrow> world" where
  "Eventf project eventType reason message w =
     w\<lparr>events := events w @ [(ProjectName project, eventType, reason, message)]\<rparr>"

definition Reconcile :: "deps \<Rightarrow> reconciler \<Rightarrow> string \<Rightarrow> world \<Rightarrow> error option \<times> world" where
  "Reconcile d r request w =
     (case clientGet d (masterAPIClient r) request w of
        Inl err \<Rightarrow> (IgnoreNotFound (Some err), w)
      | Inr project \<Rightarrow>
          if \<not> IsZero (DeletionTimestamp project)
          then (case handleDeletion d r project w of
                  (Some err, w') \<Rightarrow> (Some (WrapError (''handling deletion: '' @ Error err) err), w')
                | (None, w') \<Rightarrow> (None, w'))
          else (case (if \<not> HasFinalizer project (SeedProjectCleanupFinalizer d)
                      then (let project' = AddFinalizer project (SeedProjectCleanupFinalizer d)
                            in case projectUpdate d (masterClient r) project' w of
                                 (Some err, w') \<Rightarrow>
                                   (Inl (WrapError (''failed to add project finalizer ''
                                           @ ProjectName project' @ '': '' @ Error err) err), w')
                               | (None, w') \<Rightarrow> (Inr project', w'))
                      else (Inr project, w)) of
                  (Inl err, w') \<Rightarrow> (Some err, w')
                | (Inr project, w') \<Rightarrow>
                    (case syncAllSeeds r project (syncAction d request) w' of
                       (Some err, w'') \<Rightarrow>
                         (Some (WrapError (''reconciled project: '' @ ProjectName project @ '': ''
                                           @ Error err) err),
                          Eventf project ''Warning'' ''ReconcilingError'' (Error err) w'')
                     | (None, w'') \<Rightarrow> (None, w''))))"

subsection \<open>enqueueAllProjects (lines 183 to 199)\<close>

text \<open>
  The map function of the seed watch. A request for a Project, which has no namespace, is
  its name. A \<^verbatim>\<open>List\<close> that fails leaves the list it was given as it was: empty.
\<close>

definition enqueueAllProjects :: "deps \<Rightarrow> client \<Rightarrow> world \<Rightarrow> string list \<times> world" where
  "enqueueAllProjects d cl w =
     (case (case clientList d cl w of
              Inl err \<Rightarrow>
                ([], w\<lparr>errorLog := errorLog w
                        @ [err, WrapError (''failed to list projects: '' @ Error err) err]\<rparr>)
            | Inr items \<Rightarrow> (items, w)) of
        (projectList, w') \<Rightarrow> (map ProjectName projectList, w'))"

section \<open>The equality rule of each kind\<close>

text \<open>
  What it means for a registered creator (or secret operation) to be settled in a state:
  the lister has its object, the creator builds from it without an error, and the kind's
  rule finds nothing to do. For the structural kinds the rule is deep equality of the
  desired and the existing object.
\<close>

definition structurallyEqual ::
  "env \<Rightarrow> kind \<Rightarrow> string \<Rightarrow> TemplateData \<Rightarrow> state \<Rightarrow> creator \<Rightarrow> bool" where
  "structurallyEqual e k ns data s create =
     (case create data None of
        Inl err \<Rightarrow> False
      | Inr built \<Rightarrow>
          (case listerGet e k ns (Name built) s of
             Inl err \<Rightarrow> False
           | Inr existing \<Rightarrow>
               (case create data (Some existing) of
                  Inl err \<Rightarrow> False
                | Inr desired \<Rightarrow> DeepEqual desired existing)))"





text \<open>
  \<^verbatim>\<open>ensureDeployments\<close> and \<^verbatim>\<open>ensureStatefulSets\<close> by their kind, for the properties
  that hold of both.
\<close>

definition ensureWorkloads_body ::
  "kind \<Rightarrow> env \<Rightarrow> TemplateData \<Rightarrow> Cluster \<Rightarrow> creator \<Rightarrow> state \<Rightarrow> flow \<times> state" where
  "ensureWorkloads_body k = (if k = StatefulSetKind then ensureStatefulSets_body else ensureDeployments_body)"

definition ensureWorkloads ::
  "kind \<Rightarrow> env \<Rightarrow> resources \<Rightarrow> Controller \<Rightarrow> Cluster \<Rightarrow> state \<Rightarrow> error option \<times> state" where
  "ensureWorkloads k = (if k = StatefulSetKind then ensureStatefulSets else ensureDeployments)"

definition workloadCreators :: "kind \<Rightarrow> resources \<Rightarrow> Cluster \<Rightarrow> creator list" where
  "workloadCreators k r c =
     (if k = StatefulSetKind then GetStatefulSetCreators r else GetDeploymentCreators r (Some c))"

text \<open>The name of the object a call on the client addresses.\<close>

fun writeName :: "write \<Rightarrow> string" where
  "writeName (Create k ns obj) = Name obj"
| "writeName (Update k ns obj) = Name obj"
| "writeName (Patch k ns name pt patch) = name"
| "writeName (Delete k ns name policy) = name"

text \<open>
  The secret the deprecated path builds from what a generator returns: the last-applied
  annotation and the name of the operation are set on it (lines 222 and 223).
\<close>

definition stamped :: "secretOp \<Rightarrow> object \<Rightarrow> gomap \<Rightarrow> string \<Rightarrow> object" where
  "stamped op generated annotations currentJSON =
     generated\<lparr>Annotations := Some (mapSet annotations lastAppliedConfigAnnotation currentJSON),
               Name := opName op\<rparr>"

text \<open>
  The control-plane copy of a Project carries a finalizer when the cluster stores the
  Project with that finalizer in its list.
\<close>

definition finalizerPresent :: "world \<Rightarrow> client \<Rightarrow> string \<Rightarrow> string \<Rightarrow> bool" where
  "finalizerPresent w cl name finalizer =
     (case lookupProject name (projects w cl) of
        None \<Rightarrow> False
      | Some project \<Rightarrow> HasFinalizer project finalizer)"

text \<open>
  Every registered seed answers the Delete of the Project with success or with
  NotFound. What a seed answers does not depend on the Projects it stores: NotFound
  counts as success.
\<close>

definition seedsCleaned :: "deps \<Rightarrow> Project \<Rightarrow> (string \<times> client) list \<Rightarrow> world \<Rightarrow> bool" where
  "seedsCleaned d project seeds w =
     list_all (\<lambda>seed. IgnoreNotFound (fst (projectDelete d (snd seed) project w)) = None) seeds"

text \<open>The calls that patch a Project, among the calls issued.\<close>

fun isPatch :: "client \<times> request \<Rightarrow> bool" where
  "isPatch (cl, PatchProject project old) = True"
| "isPatch (cl, rq) = False"

section \<open>Concrete scenarios\<close>

text \<open>
  The values the witnesses and the counterexamples below are evaluated on: an
  environment in which no call is refused, the informers publish at once, and the
  library functions are stand-ins (the three-way merge fails on an original document
  that is the single byte \<^verbatim>\<open>{\<close>, which is not JSON, and answers the modified document
  otherwise); a cluster in a datacenter the controller knows.
\<close>

definition env0 :: env where
  "env0 =
     \<lparr>clientFault = (\<lambda>w. None), listerFault = (\<lambda>k. None), publishDelay = (\<lambda>k. 0),
      rangeOrder = [0, 1, 2, 3],
      Marshal = (\<lambda>obj. Inr (Name obj @ Rest obj)),
      CreateThreeWayJSONMergePatch =
        (\<lambda>original modified current.
           if original = ''{'' then Inl (ErrorString ''unexpected end of JSON input'')
           else Inr modified),
      applyMergePatch = (\<lambda>patch obj. obj\<lparr>Rest := patch\<rparr>)\<rparr>"

definition cluster0 :: Cluster where
  "cluster0 =
     \<lparr>ClusterName = ''c1'', DatacenterName = ''dc1'', MachineNetworks = [],
      NamespaceName = ''cluster-c1''\<rparr>"

definition emptyState :: state where
  "emptyState = \<lparr>live = (\<lambda>k. None), cache = (\<lambda>k. None), writes = [], counts = [], clock = 0\<rparr>"

text \<open>A state in which the API server and the listers hold the one object \<open>obj\<close>.\<close>

definition holding :: "kind \<Rightarrow> object \<Rightarrow> state" where
  "holding k obj =
     emptyState\<lparr>live := (\<lambda>key. if key = (k, ''cluster-c1'', Name obj) then Some obj else None),
                cache := (\<lambda>key. if key = (k, ''cluster-c1'', Name obj) then Some obj else None)\<rparr>"

definition data0 :: TemplateData where
  "data0 = NewTemplateData cluster0 ''dc1-spec'' ''seed-dc'' (\<lambda>k. None) ''''"

text \<open>A creator that builds the same object whatever it is given.\<close>

definition always :: "object \<Rightarrow> creator" where
  "always obj = (\<lambda>data existing. Inr obj)"

text \<open>Two payloads with different entries and the same rendering.\<close>

definition payloadOld :: gomap where
  "payloadOld = [(''a'', ''x''), (''b'', ''y'')]"

definition payloadNew :: gomap where
  "payloadNew = [(''a'', ''xb:y'')]"

definition configMapOld :: object where
  "configMapOld =
     \<lparr>Name = ''config'',
      Annotations = Some [(checksumAnnotation, getChecksumForMapStringString payloadOld)],
      Data = payloadOld, Selector = None, Rest = ''''\<rparr>"

definition configMapNew :: object where
  "configMapNew =
     \<lparr>Name = ''config'', Annotations = None, Data = payloadNew, Selector = None, Rest = ''''\<rparr>"

definition controller0 :: Controller where
  "controller0 =
     \<lparr>dcs = (\<lambda>name. if name = ''dc1'' then Some ''dc1-spec'' else None), dc = ''seed-dc'',
      options = '''',
      generatorOf = (\<lambda>g listers c existing.
         Inr (\<lparr>Name = ''settled'',
               Annotations = Some [(checksumAnnotation, getChecksumForMapStringString []),
                                   (lastAppliedConfigAnnotation, ''{}'')],
               Data = [], Selector = Some [], Rest = ''''\<rparr>, ''{}''))\<rparr>"

text \<open>
  A cluster in which everything is settled: one object, stored under every kind, that
  every creator and every generator builds again; it carries the checksum of its data
  and the JSON document the generators return.
\<close>

definition settledObject :: object where
  "settledObject =
     \<lparr>Name = ''settled'',
      Annotations = Some [(checksumAnnotation, getChecksumForMapStringString []),
                          (lastAppliedConfigAnnotation, ''{}'')],
      Data = [], Selector = Some [], Rest = ''''\<rparr>"

definition settledResources :: resources where
  "settledResources =
     \<lparr>creatorOf = (\<lambda>comp. always settledObject), nameOf = (\<lambda>n. ''settled''),
      ServiceAccount = (\<lambda>name ref existing. settledObject), GetClusterRef = (\<lambda>data. ''c1'')\<rparr>"


text \<open>
  Two StatefulSets: the first is stored as its creator builds it, the second is stored
  with the selector \<^verbatim>\<open>{app: a}\<close> while its creator builds it with \<^verbatim>\<open>{app: b}\<close>.
\<close>

definition prometheusSet :: object where
  "prometheusSet =
     \<lparr>Name = ''prometheus'', Annotations = None, Data = [], Selector = Some [(''app'', ''prometheus'')],
      Rest = ''''\<rparr>"

definition etcdSetOld :: object where
  "etcdSetOld =
     \<lparr>Name = ''etcd'', Annotations = None, Data = [], Selector = Some [(''app'', ''a'')], Rest = ''''\<rparr>"

definition etcdSetNew :: object where
  "etcdSetNew =
     \<lparr>Name = ''etcd'', Annotations = None, Data = [], Selector = Some [(''app'', ''b'')], Rest = ''''\<rparr>"

definition setResources :: resources where
  "setResources =
     \<lparr>creatorOf = (\<lambda>comp. if comp = prometheus_StatefulSet then always prometheusSet else always etcdSetNew),
      nameOf = (\<lambda>n. ''settled''),
      ServiceAccount = (\<lambda>name ref existing. settledObject), GetClusterRef = (\<lambda>data. ''c1'')\<rparr>"

definition twoSets :: state where
  "twoSets =
     emptyState\<lparr>live := (\<lambda>key. if key = (StatefulSetKind, ''cluster-c1'', ''prometheus'') then Some prometheusSet
                            else if key = (StatefulSetKind, ''cluster-c1'', ''etcd'') then Some etcdSetOld
                            else None),
                cache := (\<lambda>key. if key = (StatefulSetKind, ''cluster-c1'', ''prometheus'') then Some prometheusSet
                             else if key = (StatefulSetKind, ''cluster-c1'', ''etcd'') then Some etcdSetOld
                             else None)\<rparr>"

text \<open>
  A Deployment stored with the selector \<^verbatim>\<open>{app: a}\<close> that every Deployment creator
  builds with \<^verbatim>\<open>{app: b}\<close>.
\<close>

definition labelledA :: object where
  "labelledA =
     \<lparr>Name = ''workload'', Annotations = None, Data = [], Selector = Some [(''app'', ''a'')], Rest = ''''\<rparr>"

definition labelledB :: object where
  "labelledB =
     \<lparr>Name = ''workload'', Annotations = None, Data = [], Selector = Some [(''app'', ''b'')], Rest = ''''\<rparr>"

definition relabelResources :: resources where
  "relabelResources =
     \<lparr>creatorOf = (\<lambda>comp. always labelledB), nameOf = (\<lambda>n. ''settled''),
      ServiceAccount = (\<lambda>name ref existing. settledObject), GetClusterRef = (\<lambda>data. ''c1'')\<rparr>"



text \<open>
  An existing secret whose last-applied annotation is not JSON, one whose annotation is
  the JSON of an earlier state, and the operation that generates the settled secret.
\<close>

definition brokenSecret :: object where
  "brokenSecret = settledObject\<lparr>Annotations := Some [(lastAppliedConfigAnnotation, ''{'')]\<rparr>"

definition staleSecret :: object where
  "staleSecret = settledObject\<lparr>Annotations := Some [(lastAppliedConfigAnnotation, ''null'')]\<rparr>"

definition settledOp :: secretOp where
  "settledOp = \<lparr>opName = ''settled'', gen = generatorOf controller0 getRootCACertSecret\<rparr>"

text \<open>
  Secrets that build on each other: every generator returns a secret that records the
  name of the CA secret when the lister shows one. The first two operations have names
  of their own. In \<open>slowEnv\<close> the informer takes 30001 milliseconds to publish a secret.
\<close>

definition secretNames :: "resource_name \<Rightarrow> string" where
  "secretNames n =
     (if n = CASecretName then ''ca'' else if n = FrontProxyCASecretName then ''front-proxy-ca''
      else ''other'')"

definition signedBy :: generator where
  "signedBy listers c existing =
     Inr (\<lparr>Name = '''', Annotations = Some [],
           Data = (case listers (SecretKind, NamespaceName c, ''ca'') of
                     None \<Rightarrow> []
                   | Some ca \<Rightarrow> [(''signed-by'', Name ca)]),
           Selector = None, Rest = ''''\<rparr>, ''{}'')"

definition orderedResources :: resources where
  "orderedResources = settledResources\<lparr>nameOf := secretNames\<rparr>"

definition orderedController :: Controller where
  "orderedController = controller0\<lparr>generatorOf := (\<lambda>g. signedBy)\<rparr>"

definition slowEnv :: env where
  "slowEnv = env0\<lparr>publishDelay := (\<lambda>k. 30001)\<rparr>"

definition caSecret :: object where
  "caSecret =
     \<lparr>Name = ''ca'', Annotations = Some [(lastAppliedConfigAnnotation, ''{}'')], Data = [],
      Selector = None, Rest = ''''\<rparr>"

definition frontProxySecret :: object where
  "frontProxySecret =
     \<lparr>Name = ''front-proxy-ca'', Annotations = Some [(lastAppliedConfigAnnotation, ''{}'')],
      Data = [(''signed-by'', ''ca'')], Selector = None, Rest = ''''\<rparr>"

text \<open>The state after the CA secret has been created and the lister shows it.\<close>

definition caPublished :: state where
  "caPublished =
     \<lparr>live = (\<lambda>k. if k = (SecretKind, ''cluster-c1'', ''ca'') then Some caSecret else None),
      cache = (\<lambda>k. if k = (SecretKind, ''cluster-c1'', ''ca'') then Some caSecret else None),
      writes = [Create SecretKind ''cluster-c1'' caSecret], counts = [], clock = 100\<rparr>"

text \<open>
  A control plane \<^verbatim>\<open>master\<close> and three seeds. The Project \<^verbatim>\<open>p1\<close> is being deleted
  and carries the cleanup finalizer; the first seed stores a copy of it, the others do
  not. In \<open>deps0\<close> no cluster refuses a call and the reconciling of the Project on a seed
  is a stand-in that does nothing; in \<open>refusingMaster\<close> the control plane refuses every
  call, in \<open>refusingSeedB\<close> the second seed does.
\<close>

definition deps0 :: deps where
  "deps0 =
     \<lparr>SeedProjectCleanupFinalizer = ''cleanup-seed-projects'',
      ReconcileKubermaticV1Projects = (\<lambda>project seedClient w. (None, w)),
      requestFault = (\<lambda>cl rq. None), getFault = (\<lambda>cl name. None), listFault = (\<lambda>cl. None)\<rparr>"

definition refusingMaster :: deps where
  "refusingMaster = deps0\<lparr>requestFault := (\<lambda>cl rq. if cl = ''master'' then Some ''conflict'' else None)\<rparr>"

definition refusingSeedB :: deps where
  "refusingSeedB = deps0\<lparr>requestFault := (\<lambda>cl rq. if cl = ''seed-b'' then Some ''unavailable'' else None)\<rparr>"

definition doomed :: Project where
  "doomed =
     \<lparr>ProjectName = ''p1'', DeletionTimestamp = Some 5, Finalizers = [''cleanup-seed-projects''],
      ProjectSpec = ''spec'', ProjectStatus = ''Terminating''\<rparr>"

definition seedCopy :: Project where
  "seedCopy =
     \<lparr>ProjectName = ''p1'', DeletionTimestamp = None, Finalizers = [], ProjectSpec = ''spec'',
      ProjectStatus = ''Active''\<rparr>"

definition seeds0 :: "(string \<times> client) list" where
  "seeds0 = [(''a'', ''seed-a''), (''b'', ''seed-b''), (''c'', ''seed-c'')]"

definition world0 :: world where
  "world0 =
     \<lparr>projects = (\<lambda>cl. if cl = ''master'' then [doomed] else if cl = ''seed-a'' then [seedCopy] else []),
      calls = [], events = [], errorLog = []\<rparr>"

text \<open>The same with a Project that is not being deleted.\<close>

definition active :: Project where
  "active = doomed\<lparr>DeletionTimestamp := None, ProjectStatus := ''Active''\<rparr>"

definition world1 :: world where
  "world1 =
     \<lparr>projects = (\<lambda>cl. if cl = ''master'' then [active] else if cl = ''seed-a'' then [seedCopy] else []),
      calls = [], events = [], errorLog = []\<rparr>"

text \<open>The worlds after the first seed has been handled, and an outage of the project list.\<close>

definition seedADeleted :: world where
  "seedADeleted = snd (deleteAction refusingSeedB ''seed-a'' doomed world0)"

definition seedASynced :: world where
  "seedASynced = snd (syncAction deps0 ''p1'' ''seed-a'' active world1)"

definition refusingList :: deps where
  "refusingList = deps0\<lparr>listFault := (\<lambda>cl. Some ''unavailable'')\<rparr>"

chapter \<open>Properties\<close>

section \<open>The checksum functions\<close>

lemma mapIndex_entry:
  "distinct (map fst m) \<Longrightarrow> (k, v) \<in> set m \<Longrightarrow> mapIndex m k = v"
  by (simp add: mapIndex_def)

lemma rendered_entries:
  assumes "distinct (map fst m)"
  shows "map (\<lambda>k. keyVal k (mapIndex m k)) (mapKeys m) = map (\<lambda>(k, v). keyVal k v) m"
proof -
  have "\<And>e. e \<in> set m \<Longrightarrow> keyVal (fst e) (mapIndex m (fst e)) = (\<lambda>(k, v). keyVal k v) e"
    using assms by (auto simp: mapIndex_entry)
  then show ?thesis
    by (simp add: mapKeys_def)
qed

lemma sort_mset_cong:
  fixes xs ys :: "string list"
  assumes "mset xs = mset ys"
  shows "sort xs = sort ys"
  by (rule properties_for_sort) (simp_all add: assms)

lemma getChecksumForStringSlice_mset:
  "mset xs = mset ys \<Longrightarrow> getChecksumForStringSlice xs = getChecksumForStringSlice ys"
  using sort_mset_cong [of xs ys] by (simp add: getChecksumForStringSlice_def)

lemma getChecksumForMapStringString_mset:
  assumes "distinct (map fst m)" and "distinct (map fst m')" and "mset m = mset m'"
  shows "getChecksumForMapStringString m = getChecksumForMapStringString m'"
proof -
  have "mset (map (\<lambda>(k, v). keyVal k v) m) = mset (map (\<lambda>(k, v). keyVal k v) m')"
    using assms(3) by simp
  then have "getChecksumForStringSlice (map (\<lambda>(k, v). keyVal k v) m)
      = getChecksumForStringSlice (map (\<lambda>(k, v). keyVal k v) m')"
    by (rule getChecksumForStringSlice_mset)
  then show ?thesis
    using assms(1,2)
    by (simp add: getChecksumForMapStringString_def rendered_entries)
qed

text \<open>
  C4. Two maps with the same entries, whatever the order in which \<^verbatim>\<open>range\<close> visits
  them, have the same checksum, for the string-valued and for the byte-valued function:
  the checksum is the decimal rendering of the CRC-32 (IEEE) of the concatenation of the
  sorted \<^verbatim>\<open>key:value\<close> strings.
\<close>

theorem checksum_order_independent:
  assumes "distinct (map fst m)" and "distinct (map fst m')" and "mset m = mset m'"
  shows "getChecksumForMapStringString m = getChecksumForMapStringString m'
    \<and> getChecksumForMapStringByteSlice m = getChecksumForMapStringByteSlice m'
    \<and> getChecksumForMapStringString m
        = decimal (unat (ChecksumIEEE (concat (sort (map (\<lambda>(k, v). keyVal k v) m)))))
    \<and> getChecksumForMapStringByteSlice m
        = decimal (unat (ChecksumIEEE (concat (sort (map (\<lambda>(k, v). keyVal k v) m)))))"
proof -
  have same: "getChecksumForMapStringByteSlice = getChecksumForMapStringString"
    by (rule ext) (simp add: getChecksumForMapStringByteSlice_def getChecksumForMapStringString_def)
  have "getChecksumForMapStringString m
      = decimal (unat (ChecksumIEEE (concat (sort (map (\<lambda>(k, v). keyVal k v) m)))))"
    using assms(1)
    by (simp add: getChecksumForMapStringString_def getChecksumForStringSlice_def rendered_entries)
  then show ?thesis
    using getChecksumForMapStringString_mset [OF assms] by (simp add: same)
qed

theorem checksum_order_independent_witness:
  "distinct (map fst [(''a'', ''x''), (''b'', ''y'')])
   \<and> distinct (map fst [(''b'', ''y''), (''a'', ''x'')])
   \<and> mset [(''a'', ''x''), (''b'', ''y'')] = mset [(''b'', ''y''), (''a'', ''x'')]
   \<and> getChecksumForMapStringString [(''a'', ''x''), (''b'', ''y'')]
       = getChecksumForMapStringString [(''b'', ''y''), (''a'', ''x'')]"
proof -
  have d1: "distinct (map fst [(''a'', ''x''), (''b'', ''y'')])" by simp
  have d2: "distinct (map fst [(''b'', ''y''), (''a'', ''x'')])" by simp
  have ms: "mset [(''a'', ''x''), (''b'', ''y'')] = mset [(''b'', ''y''), (''a'', ''x'')]"
    by simp
  show ?thesis
    using checksum_order_independent [OF d1 d2 ms] d1 d2 ms by blast
qed

section \<open>Go maps\<close>

lemma mapLookup_mapSet: "mapLookup (mapSet m k v) k = Some v"
proof (cases "k \<in> set (map fst m)")
  case True
  then show ?thesis
    by (induction m) (auto simp: mapLookup_def mapSet_def)
next
  case False
  then have "map_of m k = None"
    by (simp add: map_of_eq_None_iff)
  with False show ?thesis
    by (simp add: mapLookup_def mapSet_def map_add_def)
qed

lemma mapIndex_mapSet: "mapIndex (mapSet m k v) k = v"
  using mapLookup_mapSet [of m k v] by (simp add: mapIndex_def mapLookup_def)

lemma checksum_of_setChecksumAnnotation:
  "mapIndex (entries (Annotations (setChecksumAnnotation checksum x))) checksumAnnotation = checksum"
  by (simp add: setChecksumAnnotation_def entries_def mapIndex_mapSet)

lemma Name_setChecksumAnnotation: "Name (setChecksumAnnotation checksum x) = Name x"
  by (simp add: setChecksumAnnotation_def)

lemma initAnnotations_checksum:
  assumes "mapLookup (entries (Annotations existing)) checksumAnnotation = Some v"
  shows "initAnnotations ns existing s = s"
proof (cases "Annotations existing")
  case None
  with assms show ?thesis
    by (simp add: entries_def mapLookup_def)
next
  case (Some annotations)
  then show ?thesis
    by (simp add: initAnnotations_def)
qed

lemma ensureConfigMaps_body_settled:
  assumes "create data None = Inr built"
    and "listerGet e ConfigMapKind (NamespaceName c) (Name built) s = Inr existing"
    and "create data (Some existing) = Inr rebuilt"
    and "mapLookup (entries (Annotations existing)) checksumAnnotation
          = Some (getChecksumForMapStringString (Data rebuilt))"
  shows "ensureConfigMaps_body e data c create s = (Continue, s)"
  using assms
  by (simp add: ensureConfigMaps_body_def Let_def Name_setChecksumAnnotation
      checksum_of_setChecksumAnnotation initAnnotations_checksum)

section \<open>A collision of the checksum\<close>

lemma rendering_payloadOld:
  "concat (sort (map (\<lambda>k. keyVal k (mapIndex payloadOld k)) (mapKeys payloadOld))) = ''a:xb:y''"
  by (simp add: payloadOld_def mapKeys_def mapIndex_def keyVal_def)

lemma rendering_payloadNew:
  "concat (sort (map (\<lambda>k. keyVal k (mapIndex payloadNew k)) (mapKeys payloadNew))) = ''a:xb:y''"
  by (simp add: payloadNew_def mapKeys_def mapIndex_def keyVal_def)

lemma checksum_payloads:
  "getChecksumForMapStringString payloadOld = getChecksumForMapStringString payloadNew"
  by (simp only: getChecksumForMapStringString_def getChecksumForStringSlice_def
      rendering_payloadOld rendering_payloadNew)

text \<open>
  C8. The maps \<^verbatim>\<open>{"a":"x","b":"y"}\<close> and \<^verbatim>\<open>{"a":"xb:y"}\<close> hold different entries, yet
  their sorted renderings concatenate to the same bytes \<^verbatim>\<open>a:xb:y\<close>, so both checksum
  functions give them the same value; a ConfigMap that holds the first payload with its
  checksum, and whose creator now builds the second, is left as it is: the pass goes on
  to the next creator without a write.
\<close>

theorem checksum_collision_skips_write:
  "mset payloadOld \<noteq> mset payloadNew
   \<and> concat (sort (map (\<lambda>k. keyVal k (mapIndex payloadOld k)) (mapKeys payloadOld))) = ''a:xb:y''
   \<and> concat (sort (map (\<lambda>k. keyVal k (mapIndex payloadNew k)) (mapKeys payloadNew))) = ''a:xb:y''
   \<and> getChecksumForMapStringString payloadOld = getChecksumForMapStringString payloadNew
   \<and> getChecksumForMapStringByteSlice payloadOld = getChecksumForMapStringByteSlice payloadNew
   \<and> \<not> mapsDeepEqual (Data configMapNew) (Data configMapOld)
   \<and> ensureConfigMaps_body env0 data0 cluster0 (always configMapNew) (holding ConfigMapKind configMapOld)
       = (Continue, holding ConfigMapKind configMapOld)"
proof -
  have differ: "mset payloadOld \<noteq> mset payloadNew"
    by (simp add: payloadOld_def payloadNew_def)
  have bytes: "getChecksumForMapStringByteSlice payloadOld = getChecksumForMapStringByteSlice payloadNew"
    using checksum_payloads
    by (simp add: getChecksumForMapStringByteSlice_def getChecksumForMapStringString_def)
  have data: "\<not> mapsDeepEqual (Data configMapNew) (Data configMapOld)"
    by (auto simp: mapsDeepEqual_def configMapNew_def configMapOld_def payloadOld_def payloadNew_def)
  have found: "listerGet env0 ConfigMapKind ''cluster-c1'' ''config'' (holding ConfigMapKind configMapOld)
      = Inr configMapOld"
    by (simp add: listerGet_def env0_def holding_def emptyState_def configMapOld_def)
  have "mapLookup (entries (Annotations configMapOld)) checksumAnnotation
      = Some (getChecksumForMapStringString payloadOld)"
    by (simp add: configMapOld_def entries_def mapLookup_def)
  then have stored: "mapLookup (entries (Annotations configMapOld)) checksumAnnotation
      = Some (getChecksumForMapStringString (Data configMapNew))"
    by (simp add: checksum_payloads configMapNew_def)
  have skip: "ensureConfigMaps_body env0 data0 cluster0 (always configMapNew)
      (holding ConfigMapKind configMapOld) = (Continue, holding ConfigMapKind configMapOld)"
  proof (rule ensureConfigMaps_body_settled)
    show "always configMapNew data0 None = Inr configMapNew"
      by (simp add: always_def)
    show "listerGet env0 ConfigMapKind (NamespaceName cluster0) (Name configMapNew)
        (holding ConfigMapKind configMapOld) = Inr configMapOld"
      using found by (simp add: cluster0_def configMapNew_def)
    show "always configMapNew data0 (Some configMapOld) = Inr configMapNew"
      by (simp add: always_def)
    show "mapLookup (entries (Annotations configMapOld)) checksumAnnotation
        = Some (getChecksumForMapStringString (Data configMapNew))"
      by (rule stored)
  qed
  show ?thesis
    using differ rendering_payloadOld rendering_payloadNew checksum_payloads bytes data skip
    by blast
qed

section \<open>Loops\<close>

lemma iterate_append:
  "iterate body (xs @ ys) s =
     (case iterate body xs s of
        (Continue, s') \<Rightarrow> iterate body ys s'
      | (Return r, s') \<Rightarrow> (Return r, s'))"
proof (induction xs arbitrary: s)
  case Nil
  show ?case by simp
next
  case (Cons x xs)
  show ?case
  proof (cases "body x s")
    case (Pair f s')
    then show ?thesis
      using Cons.IH [of s'] by (cases f) simp_all
  qed
qed



lemma iterate_returns:
  assumes "iterate body pre s0 = (Continue, s)" and "body x s = (Return r, s')"
  shows "iterate body (pre @ x # rest) s0 = (Return r, s')"
  using assms by (simp add: iterate_append)

lemma forEach_returns:
  assumes "iterate body pre s0 = (Continue, s)" and "body x s = (Return r, s')"
  shows "forEach body (pre @ x # rest) s0 = (r, s')"
  using iterate_returns [OF assms] by (simp add: forEach_def)

lemma forEach_continues:
  assumes "iterate body pre s0 = (Continue, s)" and "body x s = (Continue, s')"
  shows "forEach body (pre @ x # rest) s0 = forEach body rest s'"
  using assms by (simp add: forEach_def iterate_append)

section \<open>A pass over settled objects\<close>






lemma ensureStatefulSets_body_settled:
  "structurallyEqual e StatefulSetKind (NamespaceName c) data s create
   \<Longrightarrow> ensureStatefulSets_body e data c create s = (Continue, s)"
  by (auto simp: structurallyEqual_def ensureStatefulSets_body_def split: sum.splits)

















section \<open>Deployments and StatefulSets whose selector changes\<close>

lemma ensureWorkloads_forEach:
  assumes "k = DeploymentKind \<or> k = StatefulSetKind"
    and "getClusterTemplateData cc c s0 = Inr data"
  shows "ensureWorkloads k e r cc c s0
    = forEach (ensureWorkloads_body k e data c) (workloadCreators k r c) s0"
  using assms
  by (auto simp: ensureWorkloads_def ensureWorkloads_body_def workloadCreators_def
      ensureDeployments_def ensureStatefulSets_def)

lemma ensureWorkloads_body_mismatch:
  assumes "k = DeploymentKind \<or> k = StatefulSetKind"
    and "create data None = Inr built"
    and "listerGet e k (NamespaceName c) (Name built) s = Inr existing"
    and "create data (Some existing) = Inr desired"
    and "\<not> DeepEqual desired existing"
    and "Selector desired = Some matchLabels"
    and "Selector existing = Some existingMatchLabels"
    and "\<not> mapsDeepEqual matchLabels existingMatchLabels"
  shows "ensureWorkloads_body k e data c create s =
    (Return (fst (clientDelete e k (NamespaceName c) (Name desired) (Some DeletePropagationForeground) s)),
     snd (clientDelete e k (NamespaceName c) (Name desired) (Some DeletePropagationForeground) s))"
  using assms
  by (auto simp: ensureWorkloads_body_def ensureDeployments_body_def ensureStatefulSets_body_def
      split: prod.splits)

lemma writes_clientDelete:
  "writes (snd (clientDelete e k ns name policy s)) = writes s @ [Delete k ns name policy]"
  by (simp add: clientDelete_def issue_def Let_def split: option.splits)

text \<open>
  C3. When the pass over the Deployments, or over the StatefulSets, reaches a creator
  whose existing object and freshly built desired object are not deep-equal and differ
  in \<^verbatim>\<open>Spec.Selector.MatchLabels\<close>, it issues a Delete of that object with foreground
  propagation and returns what the Delete returns. That Delete is the last call of the
  pass: no Update and no Create follows, so the object is recreated by a later pass.
\<close>

theorem selector_mismatch_deletes:
  assumes "k = DeploymentKind \<or> k = StatefulSetKind"
    and "getClusterTemplateData cc c s0 = Inr data"
    and "workloadCreators k r c = pre @ create # rest"
    and "iterate (ensureWorkloads_body k e data c) pre s0 = (Continue, s)"
    and "create data None = Inr built"
    and "listerGet e k (NamespaceName c) (Name built) s = Inr existing"
    and "create data (Some existing) = Inr desired"
    and "\<not> DeepEqual desired existing"
    and "Selector desired = Some matchLabels"
    and "Selector existing = Some existingMatchLabels"
    and "\<not> mapsDeepEqual matchLabels existingMatchLabels"
  shows "ensureWorkloads k e r cc c s0
      = clientDelete e k (NamespaceName c) (Name desired) (Some DeletePropagationForeground) s
    \<and> writes (snd (ensureWorkloads k e r cc c s0))
      = writes s @ [Delete k (NamespaceName c) (Name desired) (Some DeletePropagationForeground)]
    \<and> Update k (NamespaceName c) desired \<notin> set (drop (length (writes s)) (writes (snd (ensureWorkloads k e r cc c s0))))
    \<and> Create k (NamespaceName c) desired \<notin> set (drop (length (writes s)) (writes (snd (ensureWorkloads k e r cc c s0))))"
proof -
  let ?delete = "clientDelete e k (NamespaceName c) (Name desired) (Some DeletePropagationForeground) s"
  have "ensureWorkloads_body k e data c create s = (Return (fst ?delete), snd ?delete)"
    using assms(1,5-11) by (rule ensureWorkloads_body_mismatch)
  then have "forEach (ensureWorkloads_body k e data c) (pre @ create # rest) s0 = (fst ?delete, snd ?delete)"
    using assms(4) by (rule forEach_returns [rotated])
  then have result: "ensureWorkloads k e r cc c s0 = ?delete"
    using assms(1-3) by (simp add: ensureWorkloads_forEach)
  then show ?thesis
    by (simp add: writes_clientDelete)
qed

text \<open>
  C9. When that Delete succeeds, the loop returns nil at the creator whose selector
  differs: the function returns nil in the state the Delete leaves, whatever creators are
  registered after it, none of which is run.
\<close>

theorem selector_mismatch_skips_rest:
  assumes "k = DeploymentKind \<or> k = StatefulSetKind"
    and "getClusterTemplateData cc c s0 = Inr data"
    and "workloadCreators k r c = pre @ create # rest"
    and "iterate (ensureWorkloads_body k e data c) pre s0 = (Continue, s)"
    and "create data None = Inr built"
    and "listerGet e k (NamespaceName c) (Name built) s = Inr existing"
    and "create data (Some existing) = Inr desired"
    and "\<not> DeepEqual desired existing"
    and "Selector desired = Some matchLabels"
    and "Selector existing = Some existingMatchLabels"
    and "\<not> mapsDeepEqual matchLabels existingMatchLabels"
    and "clientDelete e k (NamespaceName c) (Name desired) (Some DeletePropagationForeground) s = (None, s')"
  shows "iterate (ensureWorkloads_body k e data c) (workloadCreators k r c) s0 = (Return None, s')
    \<and> ensureWorkloads k e r cc c s0 = (None, s')
    \<and> (\<forall>others. forEach (ensureWorkloads_body k e data c) (pre @ create # others) s0 = (None, s'))"
proof -
  have "ensureWorkloads_body k e data c create s =
    (Return (fst (clientDelete e k (NamespaceName c) (Name desired) (Some DeletePropagationForeground) s)),
     snd (clientDelete e k (NamespaceName c) (Name desired) (Some DeletePropagationForeground) s))"
    using assms(1,5-11) by (rule ensureWorkloads_body_mismatch)
  then have body: "ensureWorkloads_body k e data c create s = (Return None, s')"
    using assms(12) by simp
  have "iterate (ensureWorkloads_body k e data c) (pre @ create # rest) s0 = (Return None, s')"
    using assms(4) body by (simp add: iterate_append)
  moreover have "forEach (ensureWorkloads_body k e data c) (pre @ create # others) s0 = (None, s')"
    for others
    using assms(4) body by (simp add: forEach_def iterate_append)
  ultimately show ?thesis
    using assms(1-3) by (simp add: ensureWorkloads_forEach)
qed

section \<open>Two passes over a StatefulSet whose selector changes\<close>

lemma twoSets_data:
  "getClusterTemplateData controller0 cluster0 s
     = Inr (NewTemplateData cluster0 ''dc1-spec'' ''seed-dc'' (cache s) '''')"
  by (simp add: getClusterTemplateData_def controller0_def cluster0_def)

lemma setResources_creators:
  "GetStatefulSetCreators setResources = [always prometheusSet, always etcdSetNew]"
  by (simp add: GetStatefulSetCreators_def setResources_def)

lemma prometheusSet_settled:
  assumes "cache s (StatefulSetKind, ''cluster-c1'', ''prometheus'') = Some prometheusSet"
  shows "ensureStatefulSets_body env0 data cluster0 (always prometheusSet) s = (Continue, s)"
proof (rule ensureStatefulSets_body_settled)
  have "listerGet env0 StatefulSetKind ''cluster-c1'' ''prometheus'' s = Inr prometheusSet"
    using assms by (simp add: listerGet_def env0_def)
  moreover have "Name prometheusSet = ''prometheus''"
    by (simp add: prometheusSet_def)
  moreover have "DeepEqual prometheusSet prometheusSet"
    by (simp add: DeepEqual_def mapsDeepEqual_def selectorsDeepEqual_def prometheusSet_def)
  ultimately show "structurallyEqual env0 StatefulSetKind (NamespaceName cluster0) data s (always prometheusSet)"
    by (simp add: structurallyEqual_def always_def cluster0_def)
qed

lemma etcdSet_differs:
  "\<not> DeepEqual etcdSetNew etcdSetOld" "Selector etcdSetNew = Some [(''app'', ''b'')]"
  "Selector etcdSetOld = Some [(''app'', ''a'')]" "\<not> mapsDeepEqual [(''app'', ''b'')] [(''app'', ''a'')]"
  "Name etcdSetNew = ''etcd''"
  by (simp_all add: DeepEqual_def mapsDeepEqual_def selectorsDeepEqual_def etcdSetNew_def etcdSetOld_def)

lemma twoSets_found:
  "cache twoSets (StatefulSetKind, ''cluster-c1'', ''prometheus'') = Some prometheusSet"
  "listerGet env0 StatefulSetKind ''cluster-c1'' ''etcd'' twoSets = Inr etcdSetOld"
  by (simp_all add: twoSets_def emptyState_def listerGet_def env0_def)

lemma twoSets_delete:
  "clientDelete env0 StatefulSetKind ''cluster-c1'' ''etcd'' (Some DeletePropagationForeground) twoSets
    = (None, twoSets\<lparr>writes := [Delete StatefulSetKind ''cluster-c1'' ''etcd'' (Some DeletePropagationForeground)],
                     live := (live twoSets)((StatefulSetKind, ''cluster-c1'', ''etcd'') := None)\<rparr>)"
  by (simp add: clientDelete_def issue_def env0_def twoSets_def emptyState_def)





theorem selector_mismatch_deletes_witness:
  "(StatefulSetKind = DeploymentKind \<or> StatefulSetKind = StatefulSetKind)
   \<and> getClusterTemplateData controller0 cluster0 twoSets
       = Inr (NewTemplateData cluster0 ''dc1-spec'' ''seed-dc'' (cache twoSets) '''')
   \<and> workloadCreators StatefulSetKind setResources cluster0
       = [always prometheusSet] @ always etcdSetNew # []
   \<and> iterate (ensureWorkloads_body StatefulSetKind env0
         (NewTemplateData cluster0 ''dc1-spec'' ''seed-dc'' (cache twoSets) '''') cluster0)
         [always prometheusSet] twoSets = (Continue, twoSets)
   \<and> always etcdSetNew (NewTemplateData cluster0 ''dc1-spec'' ''seed-dc'' (cache twoSets) '''') None
       = Inr etcdSetNew
   \<and> listerGet env0 StatefulSetKind (NamespaceName cluster0) (Name etcdSetNew) twoSets = Inr etcdSetOld
   \<and> always etcdSetNew (NewTemplateData cluster0 ''dc1-spec'' ''seed-dc'' (cache twoSets) '''')
         (Some etcdSetOld) = Inr etcdSetNew
   \<and> \<not> DeepEqual etcdSetNew etcdSetOld
   \<and> Selector etcdSetNew = Some [(''app'', ''b'')]
   \<and> Selector etcdSetOld = Some [(''app'', ''a'')]
   \<and> \<not> mapsDeepEqual [(''app'', ''b'')] [(''app'', ''a'')]
   \<and> writes (snd (ensureWorkloads StatefulSetKind env0 setResources controller0 cluster0 twoSets))
       = [Delete StatefulSetKind ''cluster-c1'' ''etcd'' (Some DeletePropagationForeground)]
   \<and> fst (ensureWorkloads StatefulSetKind env0 setResources controller0 cluster0 twoSets) = None"
proof -
  let ?data = "NewTemplateData cluster0 ''dc1-spec'' ''seed-dc'' (cache twoSets) ''''"
  have h1: "StatefulSetKind = DeploymentKind \<or> StatefulSetKind = StatefulSetKind"
    by simp
  have h2: "getClusterTemplateData controller0 cluster0 twoSets = Inr ?data"
    by (rule twoSets_data)
  have h3: "workloadCreators StatefulSetKind setResources cluster0
      = [always prometheusSet] @ always etcdSetNew # []"
    by (simp add: workloadCreators_def setResources_creators)
  have h4: "iterate (ensureWorkloads_body StatefulSetKind env0 ?data cluster0) [always prometheusSet] twoSets
      = (Continue, twoSets)"
    by (simp add: ensureWorkloads_body_def prometheusSet_settled twoSets_found)
  have h5: "always etcdSetNew ?data None = Inr etcdSetNew"
    by (simp add: always_def)
  have h6: "listerGet env0 StatefulSetKind (NamespaceName cluster0) (Name etcdSetNew) twoSets = Inr etcdSetOld"
    by (simp add: cluster0_def etcdSet_differs twoSets_found)
  have h7: "always etcdSetNew ?data (Some etcdSetOld) = Inr etcdSetNew"
    by (simp add: always_def)
  note h8 = etcdSet_differs(1) and h9 = etcdSet_differs(2) and h10 = etcdSet_differs(3)
    and h11 = etcdSet_differs(4)
  have "ensureWorkloads StatefulSetKind env0 setResources controller0 cluster0 twoSets
      = clientDelete env0 StatefulSetKind (NamespaceName cluster0) (Name etcdSetNew)
          (Some DeletePropagationForeground) twoSets"
    using selector_mismatch_deletes [OF h1 h2 h3 h4 h5 h6 h7 h8 h9 h10 h11] by (rule conjunct1)
  then have "ensureWorkloads StatefulSetKind env0 setResources controller0 cluster0 twoSets
      = (None, twoSets\<lparr>writes := [Delete StatefulSetKind ''cluster-c1'' ''etcd'' (Some DeletePropagationForeground)],
                       live := (live twoSets)((StatefulSetKind, ''cluster-c1'', ''etcd'') := None)\<rparr>)"
    by (simp add: cluster0_def etcdSet_differs twoSets_delete)
  then show ?thesis
    using h2 h3 h4 h5 h6 h7 h8 h9 h10 h11 by simp
qed

lemma labelled_differs:
  "\<not> DeepEqual labelledB labelledA" "Selector labelledB = Some [(''app'', ''b'')]"
  "Selector labelledA = Some [(''app'', ''a'')]" "Name labelledB = ''workload''"
  "Name labelledA = ''workload''"
  by (simp_all add: DeepEqual_def mapsDeepEqual_def selectorsDeepEqual_def labelledA_def labelledB_def)

lemma relabel_delete:
  "clientDelete env0 DeploymentKind ''cluster-c1'' ''workload'' (Some DeletePropagationForeground)
      (holding DeploymentKind labelledA)
    = (None, (holding DeploymentKind labelledA)
         \<lparr>writes := [Delete DeploymentKind ''cluster-c1'' ''workload'' (Some DeletePropagationForeground)],
          live := (live (holding DeploymentKind labelledA))((DeploymentKind, ''cluster-c1'', ''workload'') := None)\<rparr>)"
  by (simp add: clientDelete_def issue_def env0_def holding_def emptyState_def labelled_differs)

theorem selector_mismatch_skips_rest_witness:
  "(DeploymentKind = DeploymentKind \<or> DeploymentKind = StatefulSetKind)
   \<and> getClusterTemplateData controller0 cluster0 (holding DeploymentKind labelledA)
       = Inr (NewTemplateData cluster0 ''dc1-spec'' ''seed-dc'' (cache (holding DeploymentKind labelledA)) '''')
   \<and> workloadCreators DeploymentKind relabelResources cluster0
       = [] @ always labelledB # replicate 6 (always labelledB)
   \<and> iterate (ensureWorkloads_body DeploymentKind env0
         (NewTemplateData cluster0 ''dc1-spec'' ''seed-dc'' (cache (holding DeploymentKind labelledA)) '''')
         cluster0) [] (holding DeploymentKind labelledA)
       = (Continue, holding DeploymentKind labelledA)
   \<and> always labelledB
         (NewTemplateData cluster0 ''dc1-spec'' ''seed-dc'' (cache (holding DeploymentKind labelledA)) '''') None
       = Inr labelledB
   \<and> listerGet env0 DeploymentKind (NamespaceName cluster0) (Name labelledB)
         (holding DeploymentKind labelledA) = Inr labelledA
   \<and> always labelledB
         (NewTemplateData cluster0 ''dc1-spec'' ''seed-dc'' (cache (holding DeploymentKind labelledA)) '''')
         (Some labelledA) = Inr labelledB
   \<and> \<not> DeepEqual labelledB labelledA
   \<and> Selector labelledB = Some [(''app'', ''b'')]
   \<and> Selector labelledA = Some [(''app'', ''a'')]
   \<and> \<not> mapsDeepEqual [(''app'', ''b'')] [(''app'', ''a'')]
   \<and> clientDelete env0 DeploymentKind (NamespaceName cluster0) (Name labelledB)
         (Some DeletePropagationForeground) (holding DeploymentKind labelledA)
       = (None, (holding DeploymentKind labelledA)
           \<lparr>writes := [Delete DeploymentKind ''cluster-c1'' ''workload'' (Some DeletePropagationForeground)],
            live := (live (holding DeploymentKind labelledA))
                      ((DeploymentKind, ''cluster-c1'', ''workload'') := None)\<rparr>)
   \<and> ensureWorkloads DeploymentKind env0 relabelResources controller0 cluster0 (holding DeploymentKind labelledA)
       = (None, (holding DeploymentKind labelledA)
           \<lparr>writes := [Delete DeploymentKind ''cluster-c1'' ''workload'' (Some DeletePropagationForeground)],
            live := (live (holding DeploymentKind labelledA))
                      ((DeploymentKind, ''cluster-c1'', ''workload'') := None)\<rparr>)"
proof -
  let ?s = "holding DeploymentKind labelledA"
  let ?data = "NewTemplateData cluster0 ''dc1-spec'' ''seed-dc'' (cache ?s) ''''"
  let ?s' = "?s\<lparr>writes := [Delete DeploymentKind ''cluster-c1'' ''workload'' (Some DeletePropagationForeground)],
               live := (live ?s)((DeploymentKind, ''cluster-c1'', ''workload'') := None)\<rparr>"
  have h1: "DeploymentKind = DeploymentKind \<or> DeploymentKind = StatefulSetKind"
    by simp
  have h2: "getClusterTemplateData controller0 cluster0 ?s = Inr ?data"
    by (rule twoSets_data)
  have h3: "workloadCreators DeploymentKind relabelResources cluster0
      = [] @ always labelledB # replicate 6 (always labelledB)"
    by (simp add: workloadCreators_def GetDeploymentCreators_def relabelResources_def cluster0_def
        numeral_eq_Suc)
  have h4: "iterate (ensureWorkloads_body DeploymentKind env0 ?data cluster0) [] ?s = (Continue, ?s)"
    by simp
  have h5: "always labelledB ?data None = Inr labelledB"
    by (simp add: always_def)
  have h6: "listerGet env0 DeploymentKind (NamespaceName cluster0) (Name labelledB) ?s = Inr labelledA"
    by (simp add: listerGet_def env0_def holding_def emptyState_def cluster0_def labelled_differs)
  have h7: "always labelledB ?data (Some labelledA) = Inr labelledB"
    by (simp add: always_def)
  note h8 = labelled_differs(1) and h9 = labelled_differs(2) and h10 = labelled_differs(3)
    and h11 = etcdSet_differs(4)
  have h12: "clientDelete env0 DeploymentKind (NamespaceName cluster0) (Name labelledB)
      (Some DeletePropagationForeground) ?s = (None, ?s')"
    by (simp add: cluster0_def labelled_differs relabel_delete)
  have "ensureWorkloads DeploymentKind env0 relabelResources controller0 cluster0 ?s = (None, ?s')"
    using selector_mismatch_skips_rest [OF h1 h2 h3 h4 h5 h6 h7 h8 h9 h10 h11 h12] by blast
  then show ?thesis
    using h1 h2 h3 h4 h5 h6 h7 h8 h9 h10 h11 h12 by blast
qed

section \<open>The deprecated secrets path\<close>

lemma pollFrom_timeout:
  "(\<And>k. 1 \<le> k \<Longrightarrow> k \<le> n \<Longrightarrow> condition (t0 + k * i) = Inr False)
   \<Longrightarrow> pollFrom n i t0 condition = (Some ErrWaitTimeout, t0 + n * i)"
proof (induction n arbitrary: t0)
  case 0
  show ?case by simp
next
  case (Suc n)
  have first: "condition (t0 + i) = Inr False"
    using Suc.prems [of 1] by simp
  have "condition (t0 + i + k * i) = Inr False" if "1 \<le> k" "k \<le> n" for k
    using Suc.prems [of "Suc k"] that by (simp add: add.assoc)
  then have "pollFrom n i (t0 + i) condition = (Some ErrWaitTimeout, t0 + i + n * i)"
    by (rule Suc.IH)
  with first show ?case
    by (simp add: add.assoc)
qed

lemma pollFrom_success:
  "1 \<le> m \<Longrightarrow> m \<le> n \<Longrightarrow> condition (t0 + m * i) = Inr True
   \<Longrightarrow> (\<And>k. 1 \<le> k \<Longrightarrow> k < m \<Longrightarrow> condition (t0 + k * i) = Inr False)
   \<Longrightarrow> pollFrom n i t0 condition = (None, t0 + m * i)"
proof (induction n arbitrary: t0 m)
  case 0
  then show ?case by simp
next
  case (Suc n)
  show ?case
  proof (cases "m = 1")
    case True
    with Suc.prems(3) show ?thesis by simp
  next
    case False
    then obtain m' where m': "m = Suc m'" "1 \<le> m'"
      using Suc.prems(1) by (cases m) auto
    have first: "condition (t0 + i) = Inr False"
      using Suc.prems(4) [of 1] m' by simp
    have "pollFrom n i (t0 + i) condition = (None, t0 + i + m' * i)"
    proof (rule Suc.IH)
      show "1 \<le> m'" by (rule m')
      show "m' \<le> n" using Suc.prems(2) m' by simp
      show "condition (t0 + i + m' * i) = Inr True"
        using Suc.prems(3) m' by (simp add: add.assoc)
      show "condition (t0 + i + k * i) = Inr False" if "1 \<le> k" "k < m'" for k
        using Suc.prems(4) [of "Suc k"] that m' by (simp add: add.assoc)
    qed
    with first m' show ?thesis
      by (simp add: add.assoc)
  qed
qed

lemma ticks_bound: "(d::nat) \<le> 30000 \<Longrightarrow> (d + 99) div 100 \<le> 300"
  by (rule order_trans [OF div_le_mono [of "d + 99" 30099 100]]) simp_all

lemma ticks_reach: "(d::nat) \<le> (d + 99) div 100 * 100"
proof -
  have "(d + 99) mod 100 < 100"
    by simp
  moreover have "(d + 99) div 100 * 100 + (d + 99) mod 100 = d + 99"
    by simp
  ultimately show ?thesis
    by linarith
qed

lemma ticks_before: "k < ((d::nat) + 99) div 100 \<Longrightarrow> \<not> d \<le> k * 100"
proof -
  assume "k < (d + 99) div 100"
  then have "Suc k * 100 \<le> (d + 99) div 100 * 100"
    by (intro mult_le_mono1) simp
  moreover have "(d + 99) div 100 * 100 \<le> d + 99"
    by simp
  ultimately show ?thesis
    by simp
qed

text \<open>
  A condition that holds from the moment \<open>d\<close> on is met at the first poll at or after
  \<open>d\<close>, when that poll is within the timeout.
\<close>

lemma Poll_threshold:
  assumes "\<And>t. condition t = Inr (d \<le> t)"
  shows "Poll 100 30000 condition =
    (if d \<le> 30000 then (None, 100 * max 1 ((d + 99) div 100)) else (Some ErrWaitTimeout, 30000))"
proof (cases "d \<le> 30000")
  case True
  define m where "m = max 1 ((d + 99) div 100)"
  have m1: "1 \<le> m"
    by (simp add: m_def)
  have mn: "m \<le> 300"
    using ticks_bound [OF True] by (simp add: m_def)
  have reached: "d \<le> m * 100"
  proof -
    have "(d + 99) div 100 * 100 \<le> m * 100"
      by (intro mult_le_mono1) (simp add: m_def)
    with ticks_reach [of d] show ?thesis
      by (rule order_trans)
  qed
  have before: "\<not> d \<le> k * 100" if "1 \<le> k" "k < m" for k
  proof -
    have "k < (d + 99) div 100"
      using that by (simp add: m_def max_def split: if_splits)
    then show ?thesis
      by (rule ticks_before)
  qed
  have "pollFrom 300 100 0 condition = (None, 0 + m * 100)"
    using m1 mn
  proof (rule pollFrom_success)
    show "condition (0 + m * 100) = Inr True"
      using reached by (simp add: assms)
    show "condition (0 + k * 100) = Inr False" if "1 \<le> k" "k < m" for k
      using before [OF that] by (simp add: assms)
  qed
  with True show ?thesis
    by (simp add: Poll_def m_def mult.commute)
next
  case False
  have "pollFrom 300 100 0 condition = (Some ErrWaitTimeout, 0 + 300 * 100)"
  proof (rule pollFrom_timeout)
    show "condition (0 + k * 100) = Inr False" if "1 \<le> k" "k \<le> 300" for k
      using that False by (simp add: assms)
  qed
  with False show ?thesis
    by (simp add: Poll_def)
qed

lemma clientCreate_ok:
  assumes "clientCreate e k ns obj s = (None, s1)"
  shows "live s1 (k, ns, Name obj) = Some obj" and "cache s1 = cache s" and "clock s1 = clock s"
    and "writes s1 = writes s @ [Create k ns obj]"
  using assms
  by (auto simp: clientCreate_def issue_def Let_def split: option.splits)

lemma listerGet_NotFound:
  assumes "listerGet e k ns name s = Inl err" and "IsNotFound err"
  shows "listerFault e (k, ns, name) = None" and "cache s (k, ns, name) = None"
  using assms
  by (auto simp: listerGet_def refused_def split: option.splits)

lemma secretExistsInLister_threshold:
  assumes "listerFault e (SecretKind, NamespaceName c, Name secret) = None"
    and "cache s1 (SecretKind, NamespaceName c, Name secret) = None"
    and "live s1 (SecretKind, NamespaceName c, Name secret) = Some secret"
  shows "secretExistsInLister e c secret s1 t
    = Inr (publishDelay e (SecretKind, NamespaceName c, Name secret) \<le> t)"
  using assms
  by (simp add: secretExistsInLister_def listerGet_def published_def)

lemma Name_stamped: "Name (stamped op generated annotations currentJSON) = opName op"
  by (simp add: stamped_def)

lemma ensureSecrets_body_create:
  assumes "listerGet e SecretKind (NamespaceName c) (opName op) s = Inl err" and "IsNotFound err"
    and "gen op (cache s) c None = Inr (generated, currentJSON)"
    and "Annotations generated = Some annotations"
    and "clientCreate e SecretKind (NamespaceName c) (stamped op generated annotations currentJSON) s
          = (None, s1)"
  shows "ensureSecrets_body e c op s =
    (if publishDelay e (SecretKind, NamespaceName c, opName op) \<le> 30000
     then (Continue,
           (published e (SecretKind, NamespaceName c, opName op)
              (100 * max 1 ((publishDelay e (SecretKind, NamespaceName c, opName op) + 99) div 100)) s1)
             \<lparr>clock := clock s1
                + 100 * max 1 ((publishDelay e (SecretKind, NamespaceName c, opName op) + 99) div 100)\<rparr>)
     else (Return (Some (ErrorString
             (''failed waiting for secret '' @ [CHR 0x27] @ opName op @ [CHR 0x27]
              @ '' to exist in the lister: timed out waiting for the condition''))),
           s1\<lparr>clock := clock s1 + 30000\<rparr>))"
proof -
  let ?secret = "stamped op generated annotations currentJSON"
  have name: "Name ?secret = opName op"
    by (rule Name_stamped)
  have "secretExistsInLister e c ?secret s1 t
      = Inr (publishDelay e (SecretKind, NamespaceName c, Name ?secret) \<le> t)" for t
  proof (rule secretExistsInLister_threshold)
    show "listerFault e (SecretKind, NamespaceName c, Name ?secret) = None"
      using listerGet_NotFound(1) [OF assms(1,2)] by (simp add: name)
    show "cache s1 (SecretKind, NamespaceName c, Name ?secret) = None"
      using listerGet_NotFound(2) [OF assms(1,2)] clientCreate_ok(2) [OF assms(5)] by (simp add: name)
    show "live s1 (SecretKind, NamespaceName c, Name ?secret) = Some ?secret"
      using clientCreate_ok(1) [OF assms(5)] .
  qed
  then have "Poll 100 30000 (secretExistsInLister e c ?secret s1) =
    (if publishDelay e (SecretKind, NamespaceName c, opName op) \<le> 30000
     then (None, 100 * max 1 ((publishDelay e (SecretKind, NamespaceName c, opName op) + 99) div 100))
     else (Some ErrWaitTimeout, 30000))"
    using Poll_threshold [of "secretExistsInLister e c ?secret s1"
        "publishDelay e (SecretKind, NamespaceName c, opName op)"]
    by (simp add: name)
  then show ?thesis
    using assms
    by (simp add: ensureSecrets_body_def stamped_def [symmetric] name Let_def)
qed

lemma writes_clientCreate:
  "clientCreate e k ns obj s = (r, s') \<Longrightarrow> writes s' = writes s @ [Create k ns obj]"
  by (auto simp: clientCreate_def issue_def Let_def split: option.splits)

lemma writes_clientPatch:
  "clientPatch e k ns name pt patch s = (r, s') \<Longrightarrow> writes s' = writes s @ [Patch k ns name pt patch]"
  by (auto simp: clientPatch_def issue_def Let_def split: option.splits)

lemma writes_published: "writes (published e k t s) = writes s"
  by (simp add: published_def)

lemma writes_countSeedResourceUpdate: "writes (countSeedResourceUpdate label name s) = writes s"
  by (simp add: countSeedResourceUpdate_def)

text \<open>An entry of the deprecated path issues at most one call, on the secret of its name.\<close>

lemma ensureSecrets_body_writes:
  "\<exists>ws. writes (snd (ensureSecrets_body e c op s)) = writes s @ ws
     \<and> (ws = [] \<or> (\<exists>w. ws = [w] \<and> writeName w = opName op))"
  unfolding ensureSecrets_body_def Let_def
  by (auto simp: writes_published writes_countSeedResourceUpdate
      dest!: writes_clientCreate writes_clientPatch
      split: sum.splits option.splits prod.splits)

lemma iterate_secrets_in_order:
  "\<exists>handled ws. subseq handled ops
     \<and> writes (snd (iterate (ensureSecrets_body e c) ops s)) = writes s @ ws
     \<and> map writeName ws = map opName handled"
proof (induction ops arbitrary: s)
  case Nil
  show ?case by simp
next
  case (Cons op ops)
  obtain f s' where body: "ensureSecrets_body e c op s = (f, s')"
    by (cases "ensureSecrets_body e c op s")
  obtain ws1 where ws1: "writes s' = writes s @ ws1"
    "ws1 = [] \<or> (\<exists>w. ws1 = [w] \<and> writeName w = opName op)"
    using ensureSecrets_body_writes [of e c op s] body by auto
  define first where "first = (if ws1 = [] then [] else [op])"
  have first: "map writeName ws1 = map opName first"
    using ws1(2) by (auto simp: first_def)
  show ?case
  proof (cases f)
    case Continue
    obtain handled ws where rest: "subseq handled ops"
      "writes (snd (iterate (ensureSecrets_body e c) ops s')) = writes s' @ ws"
      "map writeName ws = map opName handled"
      using Cons.IH [of s'] by blast
    have "subseq (first @ handled) (op # ops)"
      using rest(1) by (auto simp: first_def intro: list_emb_Cons)
    moreover have "writes (snd (iterate (ensureSecrets_body e c) (op # ops) s)) = writes s @ (ws1 @ ws)"
      using body Continue rest(2) ws1(1) by simp
    moreover have "map writeName (ws1 @ ws) = map opName (first @ handled)"
      using first rest(3) by simp
    ultimately show ?thesis
      by blast
  next
    case (Return r)
    have "subseq first (op # ops)"
      by (auto simp: first_def)
    moreover have "writes (snd (iterate (ensureSecrets_body e c) (op # ops) s)) = writes s @ ws1"
      using body Return ws1(1) by simp
    ultimately show ?thesis
      using first by blast
  qed
qed

lemma snd_forEach: "snd (forEach body xs s) = snd (iterate body xs s)"
  by (simp add: forEach_def split: prod.splits flow.splits)

text \<open>
  C7. The deprecated secrets pass handles its entries in the order of the list: the
  calls it issues address, one after the other, entries that follow each other in the
  list. An entry whose secret the lister does not have is generated and created; the pass
  then polls the lister every 100 milliseconds. When the informer publishes the secret
  within 30 seconds, the pass goes on with the next entries once the first poll at or
  after the publication has seen the secret; otherwise, after 30 seconds, the pass
  returns an error and handles no further entry.
\<close>

theorem ordered_secrets_wait_for_lister:
  assumes "secretOps r cc c = pre @ op # rest"
    and "iterate (ensureSecrets_body e c) pre s0 = (Continue, s)"
    and "listerGet e SecretKind (NamespaceName c) (opName op) s = Inl err"
    and "IsNotFound err"
    and "gen op (cache s) c None = Inr (generated, currentJSON)"
    and "Annotations generated = Some annotations"
    and "clientCreate e SecretKind (NamespaceName c) (stamped op generated annotations currentJSON) s
          = (None, s1)"
    and "key = (SecretKind, NamespaceName c, opName op)"
    and "t = 100 * max 1 ((publishDelay e key + 99) div 100)"
  shows "(\<exists>handled. subseq handled (secretOps r cc c)
            \<and> map writeName (drop (length (writes s0)) (writes (snd (ensureSecrets e r cc c s0))))
                = map opName handled)
    \<and> (publishDelay e key \<le> 30000 \<longrightarrow>
          ensureSecrets e r cc c s0
            = forEach (ensureSecrets_body e c) rest ((published e key t s1)\<lparr>clock := clock s1 + t\<rparr>)
          \<and> cache (published e key t s1) key = Some (stamped op generated annotations currentJSON)
          \<and> publishDelay e key \<le> t \<and> t \<le> 30000)
    \<and> (30000 < publishDelay e key \<longrightarrow>
          ensureSecrets e r cc c s0
            = (Some (ErrorString (''failed waiting for secret '' @ [CHR 0x27] @ opName op @ [CHR 0x27]
                       @ '' to exist in the lister: timed out waiting for the condition'')),
               s1\<lparr>clock := clock s1 + 30000\<rparr>))"
proof -
  have order: "\<exists>handled. subseq handled (secretOps r cc c)
      \<and> map writeName (drop (length (writes s0)) (writes (snd (ensureSecrets e r cc c s0))))
          = map opName handled"
    using iterate_secrets_in_order [of "secretOps r cc c" e c s0]
    by (auto simp: ensureSecrets_def snd_forEach)
  have body: "ensureSecrets_body e c op s =
    (if publishDelay e key \<le> 30000
     then (Continue, (published e key t s1)\<lparr>clock := clock s1 + t\<rparr>)
     else (Return (Some (ErrorString
             (''failed waiting for secret '' @ [CHR 0x27] @ opName op @ [CHR 0x27]
              @ '' to exist in the lister: timed out waiting for the condition''))),
           s1\<lparr>clock := clock s1 + 30000\<rparr>))"
    using ensureSecrets_body_create [OF assms(3-7)] assms(8,9) by simp
  have timely: "ensureSecrets e r cc c s0
      = forEach (ensureSecrets_body e c) rest ((published e key t s1)\<lparr>clock := clock s1 + t\<rparr>)"
    if "publishDelay e key \<le> 30000"
    using that body assms(1,2) by (simp add: ensureSecrets_def forEach_def iterate_append)
  have visible: "cache (published e key t s1) key = Some (stamped op generated annotations currentJSON)
      \<and> publishDelay e key \<le> t \<and> t \<le> 30000"
    if "publishDelay e key \<le> 30000"
  proof -
    have reach: "publishDelay e key \<le> t"
    proof -
      have "(publishDelay e key + 99) div 100 * 100 \<le> max 1 ((publishDelay e key + 99) div 100) * 100"
        by (intro mult_le_mono1) simp
      with ticks_reach [of "publishDelay e key"] show ?thesis
        by (simp add: assms(9) mult.commute)
    qed
    have "max 1 ((publishDelay e key + 99) div 100) \<le> 300"
      using ticks_bound [OF that] by simp
    then have bound: "t \<le> 30000"
      by (simp add: assms(9))
    have "live s1 key = Some (stamped op generated annotations currentJSON)"
      using clientCreate_ok(1) [OF assms(7)] by (simp add: assms(8) Name_stamped)
    with reach bound show ?thesis
      by (simp add: published_def)
  qed
  have late: "ensureSecrets e r cc c s0
      = (Some (ErrorString (''failed waiting for secret '' @ [CHR 0x27] @ opName op @ [CHR 0x27]
                 @ '' to exist in the lister: timed out waiting for the condition'')),
         s1\<lparr>clock := clock s1 + 30000\<rparr>)"
    if "30000 < publishDelay e key"
    using that body assms(1,2) by (simp add: ensureSecrets_def forEach_def iterate_append)
  show ?thesis
    using order timely visible late by blast
qed

section \<open>The patch of an existing secret\<close>

text \<open>
  C5, as amended. For an existing secret for which the generator returns a secret with
  an annotation map, the deprecated path issues a call if and only if the stored
  last-applied annotation differs from the generated JSON and the three-way merge patch
  can be computed. The call is a Patch of type merge patch with that patch, which
  \<^verbatim>\<open>getPatch\<close> computes from the last-applied annotation as original, the marshaled
  desired secret as modified and the marshaled existing secret as current; it is never
  an Update. When the patch cannot be computed the pass returns the error of the
  computation and issues no call.
\<close>

theorem last_applied_patch:
  assumes "listerGet e SecretKind (NamespaceName c) (opName op) s = Inr existing"
    and "gen op (cache s) c (Some existing) = Inr (generated, currentJSON)"
    and "Annotations generated = Some annotations"
  shows "writes (snd (ensureSecrets_body e c op s)) =
      (if mapIndex (entries (Annotations existing)) lastAppliedConfigAnnotation \<noteq> currentJSON
       then (case getPatch e existing (stamped op generated annotations currentJSON) of
               Inl err \<Rightarrow> writes s
             | Inr patch \<Rightarrow>
                 writes s @ [Patch SecretKind (NamespaceName c) (opName op) MergePatchType patch])
       else writes s)
    \<and> (\<forall>err. mapIndex (entries (Annotations existing)) lastAppliedConfigAnnotation \<noteq> currentJSON
          \<and> getPatch e existing (stamped op generated annotations currentJSON) = Inl err
          \<longrightarrow> ensureSecrets_body e c op s = (Return (Some err), s))
    \<and> (\<forall>currentData modifiedData.
          Marshal e existing = Inr currentData
          \<and> Marshal e (stamped op generated annotations currentJSON) = Inr modifiedData
          \<longrightarrow> getPatch e existing (stamped op generated annotations currentJSON)
              = CreateThreeWayJSONMergePatch e
                  (mapIndex (entries (Annotations existing)) lastAppliedConfigAnnotation)
                  modifiedData currentData)"
proof -
  let ?secret = "stamped op generated annotations currentJSON"
  let ?stored = "mapIndex (entries (Annotations existing)) lastAppliedConfigAnnotation"
  have same: "ensureSecrets_body e c op s = (Continue, s)" if "?stored = currentJSON"
    using that assms by (simp add: ensureSecrets_body_def)
  have failed: "ensureSecrets_body e c op s = (Return (Some err), s)"
    if "?stored \<noteq> currentJSON" "getPatch e existing ?secret = Inl err" for err
    using that assms by (simp add: ensureSecrets_body_def stamped_def)
  have patched: "writes (snd (ensureSecrets_body e c op s))
      = writes s @ [Patch SecretKind (NamespaceName c) (opName op) MergePatchType patch]"
    if "?stored \<noteq> currentJSON" "getPatch e existing ?secret = Inr patch" for patch
  proof (cases "clientPatch e SecretKind (NamespaceName c) (opName op) MergePatchType patch s")
    case (Pair res s')
    then have "writes s' = writes s @ [Patch SecretKind (NamespaceName c) (opName op) MergePatchType patch]"
      by (rule writes_clientPatch)
    then show ?thesis
      using that assms Pair
      by (cases res) (simp_all add: ensureSecrets_body_def stamped_def writes_countSeedResourceUpdate)
  qed
  have writes: "writes (snd (ensureSecrets_body e c op s)) =
      (if ?stored \<noteq> currentJSON
       then (case getPatch e existing ?secret of
               Inl err \<Rightarrow> writes s
             | Inr patch \<Rightarrow>
                 writes s @ [Patch SecretKind (NamespaceName c) (opName op) MergePatchType patch])
       else writes s)"
    using same failed patched by (auto split: sum.splits)
  have threeWay: "getPatch e existing ?secret
      = CreateThreeWayJSONMergePatch e ?stored modifiedData currentData"
    if "Marshal e existing = Inr currentData" "Marshal e ?secret = Inr modifiedData"
    for currentData modifiedData
    using that by (simp add: getPatch_def)
  show ?thesis
    using writes failed threeWay by blast
qed

lemma ordered_ops:
  "secretOps orderedResources orderedController cluster0
    = [\<lparr>opName = ''ca'', gen = signedBy\<rparr>] @ \<lparr>opName = ''front-proxy-ca'', gen = signedBy\<rparr>
        # replicate 11 \<lparr>opName = ''other'', gen = signedBy\<rparr>"
  by (simp add: secretOps_def orderedResources_def orderedController_def settledResources_def
      controller0_def cluster0_def secretNames_def numeral_eq_Suc)

lemma stamped_ca: "stamped \<lparr>opName = ''ca'', gen = signedBy\<rparr>
    \<lparr>Name = '''', Annotations = Some [], Data = [], Selector = None, Rest = ''''\<rparr> [] ''{}'' = caSecret"
  by (simp add: stamped_def caSecret_def mapSet_def)

lemma stamped_frontProxy: "stamped \<lparr>opName = ''front-proxy-ca'', gen = signedBy\<rparr>
    \<lparr>Name = '''', Annotations = Some [], Data = [(''signed-by'', ''ca'')], Selector = None, Rest = ''''\<rparr>
    [] ''{}'' = frontProxySecret"
  by (simp add: stamped_def frontProxySecret_def mapSet_def)

lemma ca_absent:
  "listerGet e0 SecretKind (NamespaceName cluster0) ''ca'' emptyState = Inl (notFound ''ca'')"
  if "listerFault e0 = (\<lambda>k. None)"
  using that by (simp add: listerGet_def emptyState_def)

lemma ca_generated:
  "signedBy (cache emptyState) cluster0 None
    = Inr (\<lparr>Name = '''', Annotations = Some [], Data = [], Selector = None, Rest = ''''\<rparr>, ''{}'')"
  by (simp add: signedBy_def emptyState_def)

lemma ca_created:
  "clientCreate e0 SecretKind (NamespaceName cluster0) caSecret emptyState
    = (None, emptyState\<lparr>writes := [Create SecretKind ''cluster-c1'' caSecret],
                       live := (\<lambda>k. if k = (SecretKind, ''cluster-c1'', ''ca'') then Some caSecret else None)\<rparr>)"
  if "clientFault e0 = (\<lambda>w. None)"
  using that
  by (auto simp: clientCreate_def issue_def emptyState_def cluster0_def caSecret_def)

lemma ca_step:
  "ensureSecrets_body env0 cluster0 \<lparr>opName = ''ca'', gen = signedBy\<rparr> emptyState
    = (Continue, caPublished)"
proof -
  have delay: "publishDelay env0 k = 0" for k
    by (simp add: env0_def)
  have "ensureSecrets_body env0 cluster0 \<lparr>opName = ''ca'', gen = signedBy\<rparr> emptyState
    = (Continue,
       (published env0 (SecretKind, NamespaceName cluster0, ''ca'') 100
          (emptyState\<lparr>writes := [Create SecretKind ''cluster-c1'' caSecret],
                      live := (\<lambda>k. if k = (SecretKind, ''cluster-c1'', ''ca'') then Some caSecret else None)\<rparr>))
         \<lparr>clock := 100\<rparr>)"
    using ensureSecrets_body_create [of env0 cluster0 "\<lparr>opName = ''ca'', gen = signedBy\<rparr>" emptyState
        "notFound ''ca''" "\<lparr>Name = '''', Annotations = Some [], Data = [], Selector = None, Rest = ''''\<rparr>"
        "''{}''" "[]"
        "emptyState\<lparr>writes := [Create SecretKind ''cluster-c1'' caSecret],
                    live := (\<lambda>k. if k = (SecretKind, ''cluster-c1'', ''ca'') then Some caSecret else None)\<rparr>"]
    by (simp add: ca_absent ca_generated ca_created stamped_ca delay notFound_def env0_def)
       (simp add: emptyState_def)
  then show ?thesis
    by (simp add: published_def delay caPublished_def emptyState_def cluster0_def fun_eq_iff)
qed

theorem ordered_secrets_wait_for_lister_witness:
  "secretOps orderedResources orderedController cluster0
     = [\<lparr>opName = ''ca'', gen = signedBy\<rparr>] @ \<lparr>opName = ''front-proxy-ca'', gen = signedBy\<rparr>
         # replicate 11 \<lparr>opName = ''other'', gen = signedBy\<rparr>
   \<and> iterate (ensureSecrets_body env0 cluster0) [\<lparr>opName = ''ca'', gen = signedBy\<rparr>] emptyState
       = (Continue, caPublished)
   \<and> listerGet env0 SecretKind (NamespaceName cluster0) (opName \<lparr>opName = ''front-proxy-ca'', gen = signedBy\<rparr>)
         caPublished = Inl (notFound ''front-proxy-ca'')
   \<and> IsNotFound (notFound ''front-proxy-ca'')
   \<and> gen \<lparr>opName = ''front-proxy-ca'', gen = signedBy\<rparr> (cache caPublished) cluster0 None
       = Inr (\<lparr>Name = '''', Annotations = Some [], Data = [(''signed-by'', ''ca'')], Selector = None,
               Rest = ''''\<rparr>, ''{}'')
   \<and> clientCreate env0 SecretKind (NamespaceName cluster0) frontProxySecret caPublished
       = (None, caPublished\<lparr>writes := [Create SecretKind ''cluster-c1'' caSecret,
                                        Create SecretKind ''cluster-c1'' frontProxySecret],
                            live := (live caPublished)((SecretKind, ''cluster-c1'', ''front-proxy-ca'')
                                       := Some frontProxySecret)\<rparr>)
   \<and> publishDelay env0 (SecretKind, NamespaceName cluster0, ''front-proxy-ca'') \<le> 30000
   \<and> ensureSecrets env0 orderedResources orderedController cluster0 emptyState
       = forEach (ensureSecrets_body env0 cluster0) (replicate 11 \<lparr>opName = ''other'', gen = signedBy\<rparr>)
           ((published env0 (SecretKind, NamespaceName cluster0, ''front-proxy-ca'') 100
              (caPublished\<lparr>writes := [Create SecretKind ''cluster-c1'' caSecret,
                                       Create SecretKind ''cluster-c1'' frontProxySecret],
                           live := (live caPublished)((SecretKind, ''cluster-c1'', ''front-proxy-ca'')
                                      := Some frontProxySecret)\<rparr>))\<lparr>clock := 200\<rparr>)
   \<and> 30000 < publishDelay slowEnv (SecretKind, NamespaceName cluster0, ''ca'')
   \<and> ensureSecrets slowEnv orderedResources orderedController cluster0 emptyState
       = (Some (ErrorString (''failed waiting for secret '' @ [CHR 0x27] @ ''ca'' @ [CHR 0x27]
                  @ '' to exist in the lister: timed out waiting for the condition'')),
          emptyState\<lparr>writes := [Create SecretKind ''cluster-c1'' caSecret],
                     live := (\<lambda>k. if k = (SecretKind, ''cluster-c1'', ''ca'') then Some caSecret else None),
                     clock := 30000\<rparr>)"
proof -
  let ?ca = "\<lparr>opName = ''ca'', gen = signedBy\<rparr>"
  let ?fp = "\<lparr>opName = ''front-proxy-ca'', gen = signedBy\<rparr>"
  let ?others = "replicate 11 \<lparr>opName = ''other'', gen = signedBy\<rparr>"
  let ?blank = "\<lparr>Name = '''', Annotations = Some [], Data = [], Selector = None, Rest = ''''\<rparr>"
  let ?signed = "\<lparr>Name = '''', Annotations = Some [], Data = [(''signed-by'', ''ca'')], Selector = None,
      Rest = ''''\<rparr>"
  let ?s1 = "caPublished\<lparr>writes := [Create SecretKind ''cluster-c1'' caSecret,
                                     Create SecretKind ''cluster-c1'' frontProxySecret],
                         live := (live caPublished)((SecretKind, ''cluster-c1'', ''front-proxy-ca'')
                                    := Some frontProxySecret)\<rparr>"
  let ?slow1 = "emptyState\<lparr>writes := [Create SecretKind ''cluster-c1'' caSecret],
      live := (\<lambda>k. if k = (SecretKind, ''cluster-c1'', ''ca'') then Some caSecret else None)\<rparr>"
  have ops: "secretOps orderedResources orderedController cluster0 = [?ca] @ ?fp # ?others"
    by (rule ordered_ops)
  have reach: "iterate (ensureSecrets_body env0 cluster0) [?ca] emptyState = (Continue, caPublished)"
    by (simp add: ca_step)
  have absent: "listerGet env0 SecretKind (NamespaceName cluster0) (opName ?fp) caPublished
      = Inl (notFound ''front-proxy-ca'')"
    by (simp add: listerGet_def env0_def caPublished_def cluster0_def)
  have nf: "IsNotFound (notFound ''front-proxy-ca'')"
    by (simp add: notFound_def)
  have generated: "gen ?fp (cache caPublished) cluster0 None = Inr (?signed, ''{}'')"
    by (simp add: signedBy_def caPublished_def cluster0_def caSecret_def)
  have annotations: "Annotations ?signed = Some []"
    by simp
  have created: "clientCreate env0 SecretKind (NamespaceName cluster0) frontProxySecret caPublished
      = (None, ?s1)"
    by (simp add: clientCreate_def issue_def env0_def caPublished_def cluster0_def frontProxySecret_def)
  have created': "clientCreate env0 SecretKind (NamespaceName cluster0) (stamped ?fp ?signed [] ''{}'')
      caPublished = (None, ?s1)"
    using created by (simp add: stamped_frontProxy)
  have timely: "publishDelay env0 (SecretKind, NamespaceName cluster0, ''front-proxy-ca'') \<le> 30000"
    by (simp add: env0_def)
  have t: "(100::nat) = 100 * max 1 ((publishDelay env0 (SecretKind, NamespaceName cluster0, opName ?fp) + 99)
      div 100)"
    by (simp add: env0_def)
  have first: "ensureSecrets env0 orderedResources orderedController cluster0 emptyState
      = forEach (ensureSecrets_body env0 cluster0) ?others
          ((published env0 (SecretKind, NamespaceName cluster0, ''front-proxy-ca'') 100 ?s1)\<lparr>clock := 200\<rparr>)"
    using ordered_secrets_wait_for_lister [OF ops reach absent nf generated annotations created' refl t]
      timely
    by (simp add: caPublished_def)
  have slow_ops: "secretOps orderedResources orderedController cluster0 = [] @ ?ca # (?fp # ?others)"
    using ops by simp
  have slow_reach: "iterate (ensureSecrets_body slowEnv cluster0) [] emptyState = (Continue, emptyState)"
    by simp
  have slow_absent: "listerGet slowEnv SecretKind (NamespaceName cluster0) (opName ?ca) emptyState
      = Inl (notFound ''ca'')"
    by (simp add: ca_absent slowEnv_def env0_def)
  have slow_nf: "IsNotFound (notFound ''ca'')"
    by (simp add: notFound_def)
  have slow_generated: "gen ?ca (cache emptyState) cluster0 None = Inr (?blank, ''{}'')"
    by (simp add: ca_generated)
  have slow_annotations: "Annotations ?blank = Some []"
    by simp
  have slow_created: "clientCreate slowEnv SecretKind (NamespaceName cluster0) (stamped ?ca ?blank [] ''{}'')
      emptyState = (None, ?slow1)"
    by (simp add: stamped_ca ca_created slowEnv_def env0_def)
  have late: "30000 < publishDelay slowEnv (SecretKind, NamespaceName cluster0, ''ca'')"
    by (simp add: slowEnv_def)
  have second: "ensureSecrets slowEnv orderedResources orderedController cluster0 emptyState
      = (Some (ErrorString (''failed waiting for secret '' @ [CHR 0x27] @ ''ca'' @ [CHR 0x27]
                 @ '' to exist in the lister: timed out waiting for the condition'')),
         ?slow1\<lparr>clock := 30000\<rparr>)"
    using ordered_secrets_wait_for_lister [OF slow_ops slow_reach slow_absent slow_nf slow_generated
        slow_annotations slow_created refl refl] late
    by (simp add: emptyState_def)
  show ?thesis
    using ops reach absent nf generated created timely first late second by simp
qed

lemma settledOp_generates:
  "gen settledOp listers c existing = Inr (settledObject, ''{}'')"
  by (simp add: settledOp_def controller0_def settledObject_def)

lemma settled_annotations:
  "Annotations settledObject
    = Some [(checksumAnnotation, getChecksumForMapStringString []), (lastAppliedConfigAnnotation, ''{}'')]"
  by (simp add: settledObject_def)

lemma found_holding:
  "listerGet env0 k (NamespaceName cluster0) (Name obj) (holding k obj) = Inr obj"
  by (simp add: listerGet_def env0_def holding_def emptyState_def cluster0_def)

theorem last_applied_patch_witness:
  "listerGet env0 SecretKind (NamespaceName cluster0) (opName settledOp) (holding SecretKind staleSecret)
     = Inr staleSecret
   \<and> gen settledOp (cache (holding SecretKind staleSecret)) cluster0 (Some staleSecret)
       = Inr (settledObject, ''{}'')
   \<and> Annotations settledObject
       = Some [(checksumAnnotation, getChecksumForMapStringString []), (lastAppliedConfigAnnotation, ''{}'')]
   \<and> mapIndex (entries (Annotations staleSecret)) lastAppliedConfigAnnotation \<noteq> ''{}''
   \<and> getPatch env0 staleSecret
         (stamped settledOp settledObject
            [(checksumAnnotation, getChecksumForMapStringString []), (lastAppliedConfigAnnotation, ''{}'')]
            ''{}'')
       = Inr ''settled''
   \<and> writes (snd (ensureSecrets_body env0 cluster0 settledOp (holding SecretKind staleSecret)))
       = [Patch SecretKind ''cluster-c1'' ''settled'' MergePatchType ''settled'']"
proof -
  let ?annotations = "[(checksumAnnotation, getChecksumForMapStringString []),
      (lastAppliedConfigAnnotation, ''{}'')]"
  have name: "Name staleSecret = ''settled''" "opName settledOp = ''settled''"
    by (simp_all add: staleSecret_def settledObject_def settledOp_def)
  have found: "listerGet env0 SecretKind (NamespaceName cluster0) (opName settledOp)
      (holding SecretKind staleSecret) = Inr staleSecret"
    using found_holding [of SecretKind staleSecret] by (simp add: name)
  have generated: "gen settledOp (cache (holding SecretKind staleSecret)) cluster0 (Some staleSecret)
      = Inr (settledObject, ''{}'')"
    by (rule settledOp_generates)
  have stored: "mapIndex (entries (Annotations staleSecret)) lastAppliedConfigAnnotation = ''null''"
    by (simp add: staleSecret_def entries_def mapIndex_def)
  have patch: "getPatch env0 staleSecret (stamped settledOp settledObject ?annotations ''{}'') = Inr ''settled''"
    by (simp add: getPatch_def env0_def stored Name_stamped name)
       (simp add: staleSecret_def settledObject_def stamped_def)
  have "writes (snd (ensureSecrets_body env0 cluster0 settledOp (holding SecretKind staleSecret)))
      = writes (holding SecretKind staleSecret)
          @ [Patch SecretKind (NamespaceName cluster0) (opName settledOp) MergePatchType ''settled'']"
    using last_applied_patch [OF found generated settled_annotations] patch stored by simp
  then have "writes (snd (ensureSecrets_body env0 cluster0 settledOp (holding SecretKind staleSecret)))
      = [Patch SecretKind ''cluster-c1'' ''settled'' MergePatchType ''settled'']"
    by (simp add: holding_def emptyState_def cluster0_def name)
  then show ?thesis
    using found generated settled_annotations stored patch by simp
qed

text \<open>
  C5 does not hold as stated: the stored last-applied annotation of this secret differs
  from the generated JSON, and no call is issued, because the annotation is not JSON and
  the three-way merge patch cannot be computed from it; the body returns that error in
  the state it started from.
\<close>

theorem last_applied_patch_counterexample:
  "listerGet env0 SecretKind (NamespaceName cluster0) (opName settledOp) (holding SecretKind brokenSecret)
     = Inr brokenSecret
   \<and> gen settledOp (cache (holding SecretKind brokenSecret)) cluster0 (Some brokenSecret)
       = Inr (settledObject, ''{}'')
   \<and> mapIndex (entries (Annotations brokenSecret)) lastAppliedConfigAnnotation \<noteq> ''{}''
   \<and> ensureSecrets_body env0 cluster0 settledOp (holding SecretKind brokenSecret)
       = (Return (Some (ErrorString ''unexpected end of JSON input'')), holding SecretKind brokenSecret)
   \<and> writes (holding SecretKind brokenSecret) = []"
proof -
  have name: "Name brokenSecret = ''settled''" "opName settledOp = ''settled''"
    by (simp_all add: brokenSecret_def settledObject_def settledOp_def)
  have found: "listerGet env0 SecretKind (NamespaceName cluster0) (opName settledOp)
      (holding SecretKind brokenSecret) = Inr brokenSecret"
    using found_holding [of SecretKind brokenSecret] by (simp add: name)
  have stored: "mapIndex (entries (Annotations brokenSecret)) lastAppliedConfigAnnotation = ''{''"
    by (simp add: brokenSecret_def entries_def mapIndex_def)
  have patch: "getPatch env0 brokenSecret obj = Inl (ErrorString ''unexpected end of JSON input'')" for obj
    by (simp add: getPatch_def env0_def stored)
  have "ensureSecrets_body env0 cluster0 settledOp (holding SecretKind brokenSecret)
      = (Return (Some (ErrorString ''unexpected end of JSON input'')), holding SecretKind brokenSecret)"
    using found stored patch
    by (simp add: ensureSecrets_body_def settledOp_generates settled_annotations)
  then show ?thesis
    using found stored by (simp add: settledOp_generates holding_def emptyState_def)
qed

section \<open>The deletion gate of the project synchronizer\<close>

lemma lookupProject_name: "lookupProject name ps = Some p \<Longrightarrow> ProjectName p = name"
  by (auto simp: lookupProject_def find_Some_iff)

lemma lookupProject_replaced:
  "lookupProject name ps = Some p \<Longrightarrow> ProjectName x = name
   \<Longrightarrow> lookupProject name (map (\<lambda>p. if ProjectName p = name then x else p) ps) = Some x"
  by (induction ps) (auto simp: lookupProject_def split: if_splits)

lemma lookupProject_removed:
  "lookupProject name (filter (\<lambda>p. ProjectName p \<noteq> name) ps) = None"
  by (simp add: lookupProject_def find_None_iff)

lemma projects_called: "projects (called cl rq w) = projects w"
  by (simp add: called_def)

lemma calls_stored: "calls (stored cl project w) = calls w"
  by (simp add: stored_def)

lemma projects_stored_other: "cl' \<noteq> cl \<Longrightarrow> projects (stored cl project w) cl' = projects w cl'"
  by (simp add: stored_def)

lemma projects_stored: "projects (stored cl project w) cl = settle project (projects w cl)"
  by (simp add: stored_def)

text \<open>A seed answers a Delete with success or NotFound exactly when it does not refuse it.\<close>

lemma delete_answer:
  "IgnoreNotFound (fst (projectDelete d cl project w)) = None
    \<longleftrightarrow> requestFault d cl (DeleteProject project) = None"
  by (auto simp: projectDelete_def Let_def refused_def notFound_def split: option.splits)

lemma seedsCleaned_faults:
  "seedsCleaned d project seeds w
    \<longleftrightarrow> list_all (\<lambda>seed. requestFault d (snd seed) (DeleteProject project) = None) seeds"
  by (simp add: seedsCleaned_def delete_answer)

lemma seedsCleaned_world: "seedsCleaned d project seeds w = seedsCleaned d project seeds w'"
  by (simp add: seedsCleaned_faults)

lemma deleteAction_answer:
  "fst (deleteAction d cl project w) = None \<longleftrightarrow> requestFault d cl (DeleteProject project) = None"
  using delete_answer [of d cl project w]
  by (cases "projectDelete d cl project w") (simp add: deleteAction_def)

lemma settle_keeps_finalizer:
  assumes "lookupProject name ps = Some current" and "ProjectName x = name"
    and "HasFinalizer x finalizer"
  shows "lookupProject name (settle x ps) = Some x"
proof -
  have "Finalizers x \<noteq> []"
    using assms(3) by (auto simp: HasFinalizer_def)
  then show ?thesis
    using assms(1,2) by (simp add: settle_def lookupProject_replaced)
qed

lemma projectDelete_finalizerPresent:
  assumes "finalizerPresent w m (ProjectName project) finalizer"
  shows "finalizerPresent (snd (projectDelete d cl project w)) m (ProjectName project) finalizer"
proof (cases "requestFault d cl (DeleteProject project)")
  case (Some msg)
  then show ?thesis
    using assms by (simp add: projectDelete_def Let_def finalizerPresent_def projects_called)
next
  case None
  show ?thesis
  proof (cases "lookupProject (ProjectName project) (projects w cl)")
    case absent: None
    then show ?thesis
      using assms None by (simp add: projectDelete_def Let_def finalizerPresent_def projects_called)
  next
    case (Some current)
    let ?marked = "current\<lparr>DeletionTimestamp :=
        (if IsZero (DeletionTimestamp current) then Some 1 else DeletionTimestamp current)\<rparr>"
    have result: "snd (projectDelete d cl project w)
        = stored cl ?marked (called cl (DeleteProject project) w)"
      using None Some by (simp add: projectDelete_def Let_def)
    show ?thesis
    proof (cases "cl = m")
      case False
      then show ?thesis
        using assms by (simp add: result finalizerPresent_def projects_stored_other projects_called)
    next
      case True
      have held: "HasFinalizer current finalizer"
        using assms Some True by (simp add: finalizerPresent_def)
      have "ProjectName ?marked = ProjectName project"
        using lookupProject_name [OF Some] by simp
      moreover have "HasFinalizer ?marked finalizer"
        using held by (simp add: HasFinalizer_def)
      ultimately have "lookupProject (ProjectName project) (settle ?marked (projects w cl)) = Some ?marked"
        using Some by (intro settle_keeps_finalizer)
      then have "lookupProject (ProjectName project)
          (projects (stored cl ?marked (called cl (DeleteProject project) w)) cl) = Some ?marked"
        by (simp add: projects_stored projects_called)
      then have "finalizerPresent (stored cl ?marked (called cl (DeleteProject project) w)) cl
          (ProjectName project) finalizer"
        using held by (simp add: finalizerPresent_def HasFinalizer_def)
      then have "finalizerPresent (snd (projectDelete d cl project w)) cl (ProjectName project) finalizer"
        by (simp only: result)
      then show ?thesis
        by (simp only: True)
    qed
  qed
qed

lemma projectDelete_patches:
  "filter isPatch (calls (snd (projectDelete d cl project w))) = filter isPatch (calls w)"
  by (simp add: projectDelete_def Let_def called_def calls_stored split: option.splits)

lemma deleteAction_snd: "snd (deleteAction d cl project w) = snd (projectDelete d cl project w)"
  by (cases "projectDelete d cl project w") (simp add: deleteAction_def)

text \<open>
  The fan-out of the deletes: it runs through when every seed answers with success or
  NotFound and returns an error otherwise; either way the control-plane copy keeps its
  finalizer and no Project is patched.
\<close>

lemma delete_fan_out:
  assumes "finalizerPresent w m (ProjectName project) finalizer"
  shows "(if seedsCleaned d project seeds w
          then \<exists>w'. iterate (syncAllSeeds_body (deleteAction d) project) seeds w = (Continue, w')
          else \<exists>err w'. iterate (syncAllSeeds_body (deleteAction d) project) seeds w
                 = (Return (Some err), w'))
    \<and> finalizerPresent (snd (iterate (syncAllSeeds_body (deleteAction d) project) seeds w)) m
          (ProjectName project) finalizer
    \<and> filter isPatch (calls (snd (iterate (syncAllSeeds_body (deleteAction d) project) seeds w)))
        = filter isPatch (calls w)"
  using assms
proof (induction seeds arbitrary: w)
  case Nil
  then show ?case
    by (simp add: seedsCleaned_def)
next
  case (Cons seed seeds)
  obtain seedName seedClient where seed: "seed = (seedName, seedClient)"
    by (cases seed)
  obtain res w1 where action: "deleteAction d seedClient project w = (res, w1)"
    by (cases "deleteAction d seedClient project w")
  have w1: "w1 = snd (projectDelete d seedClient project w)"
    using action deleteAction_snd [of d seedClient project w] by simp
  have present: "finalizerPresent w1 m (ProjectName project) finalizer"
    using Cons.prems by (simp add: w1 projectDelete_finalizerPresent)
  have patches: "filter isPatch (calls w1) = filter isPatch (calls w)"
    by (simp add: w1 projectDelete_patches)
  have answer: "res = None \<longleftrightarrow> requestFault d seedClient (DeleteProject project) = None"
    using deleteAction_answer [of d seedClient project w] action by simp
  show ?case
  proof (cases res)
    case None
    then have "seedsCleaned d project (seed # seeds) w = seedsCleaned d project seeds w1"
      using answer by (simp add: seedsCleaned_faults seed)
    moreover have "iterate (syncAllSeeds_body (deleteAction d) project) (seed # seeds) w
        = iterate (syncAllSeeds_body (deleteAction d) project) seeds w1"
      using action None by (simp add: syncAllSeeds_body_def seed)
    ultimately show ?thesis
      using Cons.IH [OF present] patches by simp
  next
    case (Some err)
    then have "\<not> seedsCleaned d project (seed # seeds) w"
      using answer by (simp add: seedsCleaned_faults seed)
    moreover have "iterate (syncAllSeeds_body (deleteAction d) project) (seed # seeds) w
        = (Return (Some (WrapError (''failed syncing project for seed '' @ seedName @ '': '' @ Error err)
             err)), w1)"
      using action Some by (simp add: syncAllSeeds_body_def seed)
    ultimately show ?thesis
      using present patches by simp
  qed
qed

lemma removeFinalizer_differs:
  assumes "HasFinalizer project finalizer"
  shows "Finalizers (RemoveFinalizer project finalizer) \<noteq> Finalizers project"
    and "\<not> HasFinalizer (mergeFrom project (RemoveFinalizer project finalizer) current) finalizer"
    and "ProjectName (mergeFrom project (RemoveFinalizer project finalizer) current) = ProjectName current"
proof -
  have "finalizer \<notin> set (removeAll finalizer (Finalizers project))"
    by simp
  then have "removeAll finalizer (Finalizers project) \<noteq> Finalizers project"
    using assms unfolding HasFinalizer_def by metis
  then show differs: "Finalizers (RemoveFinalizer project finalizer) \<noteq> Finalizers project"
    by (simp add: RemoveFinalizer_def)
  then show "\<not> HasFinalizer (mergeFrom project (RemoveFinalizer project finalizer) current) finalizer"
    by (simp add: mergeFrom_def HasFinalizer_def) (simp add: RemoveFinalizer_def)
  show "ProjectName (mergeFrom project (RemoveFinalizer project finalizer) current) = ProjectName current"
    by (simp add: mergeFrom_def)
qed

lemma settle_without_finalizer:
  assumes "lookupProject name ps = Some current" and "ProjectName x = name"
    and "\<not> HasFinalizer x finalizer"
  shows "(case lookupProject name (settle x ps) of None \<Rightarrow> False | Some p \<Rightarrow> HasFinalizer p finalizer)
    = False"
proof (cases "\<not> IsZero (DeletionTimestamp x) \<and> Finalizers x = []")
  case True
  then have "settle x ps = filter (\<lambda>p. ProjectName p \<noteq> name) ps"
    using assms(2) by (simp add: settle_def)
  then show ?thesis
    by (simp add: lookupProject_removed)
next
  case False
  then have "lookupProject name (settle x ps) = Some x"
    using assms(1,2) by (auto simp: settle_def lookupProject_replaced)
  then show ?thesis
    using assms(3) by simp
qed

lemma remove_finalizer_patch:
  assumes "finalizerPresent w m (ProjectName project) finalizer"
    and "HasFinalizer project finalizer"
  shows "fst (projectPatch d m (RemoveFinalizer project finalizer) project w)
      = map_option refused (requestFault d m (PatchProject (RemoveFinalizer project finalizer) project))"
    and "finalizerPresent (snd (projectPatch d m (RemoveFinalizer project finalizer) project w)) m
          (ProjectName project) finalizer
      \<longleftrightarrow> requestFault d m (PatchProject (RemoveFinalizer project finalizer) project) \<noteq> None"
    and "calls (snd (projectPatch d m (RemoveFinalizer project finalizer) project w))
      = calls w @ [(m, PatchProject (RemoveFinalizer project finalizer) project)]"
proof -
  let ?new = "RemoveFinalizer project finalizer"
  have name: "ProjectName ?new = ProjectName project"
    by (simp add: RemoveFinalizer_def)
  obtain current where current: "lookupProject (ProjectName project) (projects w m) = Some current"
    using assms(1) by (auto simp: finalizerPresent_def split: option.splits)
  have merged: "\<not> HasFinalizer (mergeFrom project ?new current) finalizer"
    "ProjectName (mergeFrom project ?new current) = ProjectName project"
    using removeFinalizer_differs(2,3) [OF assms(2), of current] lookupProject_name [OF current]
    by simp_all
  show "fst (projectPatch d m ?new project w) = map_option refused (requestFault d m (PatchProject ?new project))"
    using current by (simp add: projectPatch_def Let_def name split: option.splits)
  show "calls (snd (projectPatch d m ?new project w)) = calls w @ [(m, PatchProject ?new project)]"
    using current by (simp add: projectPatch_def Let_def name called_def calls_stored split: option.splits)
  show "finalizerPresent (snd (projectPatch d m ?new project w)) m (ProjectName project) finalizer
      \<longleftrightarrow> requestFault d m (PatchProject ?new project) \<noteq> None"
  proof (cases "requestFault d m (PatchProject ?new project)")
    case (Some msg)
    then show ?thesis
      using assms(1) by (simp add: projectPatch_def Let_def finalizerPresent_def projects_called)
  next
    case None
    have "(case lookupProject (ProjectName project) (settle (mergeFrom project ?new current) (projects w m)) of
            None \<Rightarrow> False | Some p \<Rightarrow> HasFinalizer p finalizer) = False"
      using current merged(2,1) by (rule settle_without_finalizer)
    then show ?thesis
      using None current
      by (simp add: projectPatch_def Let_def name finalizerPresent_def projects_stored projects_called)
  qed
qed

lemma clientGet_found:
  assumes "clientGet d m request w = Inr project"
  shows "lookupProject request (projects w m) = Some project" and "ProjectName project = request"
proof -
  show found: "lookupProject request (projects w m) = Some project"
    using assms by (auto simp: clientGet_def split: option.splits)
  then show "ProjectName project = request"
    by (rule lookupProject_name)
qed

text \<open>
  C1, as amended. For a reconcile of a Project whose deletion timestamp is set and that
  carries the cleanup finalizer: the finalizer is gone from the control-plane copy after
  the pass if and only if every registered seed answered the Delete with success or
  NotFound and the control plane accepted the Patch that removes the finalizer. When a
  seed answers with another error, the pass returns an error, no Project is patched and
  the finalizer stays. When every seed answers with success or NotFound, the Patch that
  removes the finalizer is the one patch the pass issues, and the pass returns nil exactly
  when the control plane accepts it.
\<close>

theorem deletion_gate:
  assumes "clientGet d m request w = Inr project"
    and "\<not> IsZero (DeletionTimestamp project)"
    and "HasFinalizer project (SeedProjectCleanupFinalizer d)"
  shows "(\<not> finalizerPresent (snd (Reconcile d (Add m seeds) request w)) m request
              (SeedProjectCleanupFinalizer d)
          \<longleftrightarrow> seedsCleaned d project seeds w
              \<and> requestFault d m (PatchProject (RemoveFinalizer project (SeedProjectCleanupFinalizer d))
                    project) = None)
    \<and> (\<not> seedsCleaned d project seeds w \<longrightarrow>
          fst (Reconcile d (Add m seeds) request w) \<noteq> None
          \<and> filter isPatch (calls (snd (Reconcile d (Add m seeds) request w))) = filter isPatch (calls w))
    \<and> (seedsCleaned d project seeds w \<longrightarrow>
          filter isPatch (calls (snd (Reconcile d (Add m seeds) request w)))
            = filter isPatch (calls w)
                @ [(m, PatchProject (RemoveFinalizer project (SeedProjectCleanupFinalizer d)) project)]
          \<and> (fst (Reconcile d (Add m seeds) request w) = None
               \<longleftrightarrow> requestFault d m (PatchProject (RemoveFinalizer project (SeedProjectCleanupFinalizer d))
                      project) = None))"
proof -
  let ?F = "SeedProjectCleanupFinalizer d"
  let ?r = "Add m seeds"
  let ?fan = "iterate (syncAllSeeds_body (deleteAction d) project) seeds w"
  let ?patch = "PatchProject (RemoveFinalizer project ?F) project"
  have name: "ProjectName project = request"
    using assms(1) by (rule clientGet_found)
  have before: "finalizerPresent w m (ProjectName project) ?F"
    using clientGet_found(1) [OF assms(1)] assms(3) by (simp add: finalizerPresent_def name)
  note fan = delete_fan_out [OF before, of d seeds]
  have reconcile: "Reconcile d ?r request w =
      (case handleDeletion d ?r project w of
         (Some err, w') \<Rightarrow> (Some (WrapError (''handling deletion: '' @ Error err) err), w')
       | (None, w') \<Rightarrow> (None, w'))"
    using assms(1,2) by (simp add: Reconcile_def Add_def)
  have failing: "fst (Reconcile d ?r request w) \<noteq> None
      \<and> finalizerPresent (snd (Reconcile d ?r request w)) m request ?F
      \<and> filter isPatch (calls (snd (Reconcile d ?r request w))) = filter isPatch (calls w)"
    if failed: "\<not> seedsCleaned d project seeds w"
  proof -
    obtain err w' where stop: "?fan = (Return (Some err), w')"
      using fan failed by auto
    then have "handleDeletion d ?r project w = (Some err, w')"
      by (simp add: handleDeletion_def syncAllSeeds_def forEach_def Add_def)
    then have "Reconcile d ?r request w = (Some (WrapError (''handling deletion: '' @ Error err) err), w')"
      by (simp add: reconcile)
    then show ?thesis
      using fan stop by (simp add: name)
  qed
  have passing: "\<not> finalizerPresent (snd (Reconcile d ?r request w)) m request ?F
        \<longleftrightarrow> requestFault d m ?patch = None"
      "filter isPatch (calls (snd (Reconcile d ?r request w))) = filter isPatch (calls w) @ [(m, ?patch)]"
      "fst (Reconcile d ?r request w) = None \<longleftrightarrow> requestFault d m ?patch = None"
    if cleaned: "seedsCleaned d project seeds w"
  proof -
    obtain w' where through: "?fan = (Continue, w')"
      using fan cleaned by auto
    have present: "finalizerPresent w' m (ProjectName project) ?F"
      and patches: "filter isPatch (calls w') = filter isPatch (calls w)"
      using fan through by simp_all
    note patch = remove_finalizer_patch [OF present assms(3), of d]
    obtain res w'' where patched: "projectPatch d m (RemoveFinalizer project ?F) project w' = (res, w'')"
      by (cases "projectPatch d m (RemoveFinalizer project ?F) project w'")
    have res: "res = map_option refused (requestFault d m ?patch)"
      using patch(1) patched by simp
    have ignore: "IgnoreNotFound res = res"
      by (cases "requestFault d m ?patch") (simp_all add: res refused_def)
    have "handleDeletion d ?r project w =
        (case res of
           Some err \<Rightarrow> (Some (WrapError (''failed to remove project finalizer '' @ ?F @ '': '' @ Error err)
                               err), w'')
         | None \<Rightarrow> (None, w''))"
      using through assms(3) patched
      by (simp add: handleDeletion_def syncAllSeeds_def forEach_def Add_def Let_def ignore)
    then have result: "fst (Reconcile d ?r request w) = None \<longleftrightarrow> res = None"
        "snd (Reconcile d ?r request w) = w''"
      by (simp_all add: reconcile split: option.splits)
    show "\<not> finalizerPresent (snd (Reconcile d ?r request w)) m request ?F
        \<longleftrightarrow> requestFault d m ?patch = None"
      using patch(2) patched by (simp add: result name)
    show "filter isPatch (calls (snd (Reconcile d ?r request w))) = filter isPatch (calls w) @ [(m, ?patch)]"
      using patch(3) patched patches by (simp add: result)
    show "fst (Reconcile d ?r request w) = None \<longleftrightarrow> requestFault d m ?patch = None"
      by (simp add: result res)
  qed
  show ?thesis
    using failing passing by blast
qed

lemma doomed_facts:
  "clientGet dd ''master'' ''p1'' world0 = Inr doomed" if "getFault dd = (\<lambda>cl name. None)"
  using that by (simp add: clientGet_def world0_def lookupProject_def doomed_def)

lemma doomed_deleting: "\<not> IsZero (DeletionTimestamp doomed)"
  by (simp add: IsZero_def doomed_def)

lemma doomed_finalizer: "HasFinalizer doomed ''cleanup-seed-projects''"
  by (simp add: HasFinalizer_def doomed_def)

lemma deps_fields:
  "SeedProjectCleanupFinalizer deps0 = ''cleanup-seed-projects''"
  "SeedProjectCleanupFinalizer refusingMaster = ''cleanup-seed-projects''"
  "SeedProjectCleanupFinalizer refusingSeedB = ''cleanup-seed-projects''"
  "getFault deps0 = (\<lambda>cl name. None)" "getFault refusingMaster = (\<lambda>cl name. None)"
  "getFault refusingSeedB = (\<lambda>cl name. None)"
  "requestFault deps0 = (\<lambda>cl rq. None)"
  "requestFault refusingMaster = (\<lambda>cl rq. if cl = ''master'' then Some ''conflict'' else None)"
  "requestFault refusingSeedB = (\<lambda>cl rq. if cl = ''seed-b'' then Some ''unavailable'' else None)"
  by (simp_all add: deps0_def refusingMaster_def refusingSeedB_def)

theorem deletion_gate_witness:
  "clientGet deps0 ''master'' ''p1'' world0 = Inr doomed
   \<and> \<not> IsZero (DeletionTimestamp doomed)
   \<and> HasFinalizer doomed (SeedProjectCleanupFinalizer deps0)
   \<and> seedsCleaned deps0 doomed seeds0 world0
   \<and> \<not> finalizerPresent (snd (Reconcile deps0 (Add ''master'' seeds0) ''p1'' world0)) ''master'' ''p1''
         (SeedProjectCleanupFinalizer deps0)
   \<and> fst (Reconcile deps0 (Add ''master'' seeds0) ''p1'' world0) = None
   \<and> clientGet refusingSeedB ''master'' ''p1'' world0 = Inr doomed
   \<and> HasFinalizer doomed (SeedProjectCleanupFinalizer refusingSeedB)
   \<and> \<not> seedsCleaned refusingSeedB doomed seeds0 world0
   \<and> finalizerPresent (snd (Reconcile refusingSeedB (Add ''master'' seeds0) ''p1'' world0)) ''master'' ''p1''
         (SeedProjectCleanupFinalizer refusingSeedB)
   \<and> fst (Reconcile refusingSeedB (Add ''master'' seeds0) ''p1'' world0) \<noteq> None
   \<and> filter isPatch (calls (snd (Reconcile refusingSeedB (Add ''master'' seeds0) ''p1'' world0))) = []"
proof -
  have get: "clientGet deps0 ''master'' ''p1'' world0 = Inr doomed"
    by (simp add: doomed_facts deps_fields)
  have fin: "HasFinalizer doomed (SeedProjectCleanupFinalizer deps0)"
    by (simp add: deps_fields doomed_finalizer)
  have cleaned: "seedsCleaned deps0 doomed seeds0 world0"
    by (simp add: seedsCleaned_faults deps_fields seeds0_def)
  have accepted: "requestFault deps0 ''master''
      (PatchProject (RemoveFinalizer doomed (SeedProjectCleanupFinalizer deps0)) doomed) = None"
    by (simp add: deps_fields)
  have get': "clientGet refusingSeedB ''master'' ''p1'' world0 = Inr doomed"
    by (simp add: doomed_facts deps_fields)
  have fin': "HasFinalizer doomed (SeedProjectCleanupFinalizer refusingSeedB)"
    by (simp add: deps_fields doomed_finalizer)
  have failed: "\<not> seedsCleaned refusingSeedB doomed seeds0 world0"
    by (simp add: seedsCleaned_faults deps_fields seeds0_def)
  have none: "filter isPatch (calls world0) = []"
    by (simp add: world0_def)
  show ?thesis
    using deletion_gate [OF get doomed_deleting fin, of seeds0]
      deletion_gate [OF get' doomed_deleting fin', of seeds0]
      get fin cleaned accepted get' fin' failed none doomed_deleting
    by simp
qed

text \<open>
  C1 does not hold as stated: every seed answers the Delete with success or NotFound,
  and the finalizer is still on the control-plane copy after the pass, because the control
  plane refused the Patch that removes it; the pass returns that failure.
\<close>

theorem deletion_gate_counterexample:
  "clientGet refusingMaster ''master'' ''p1'' world0 = Inr doomed
   \<and> \<not> IsZero (DeletionTimestamp doomed)
   \<and> HasFinalizer doomed (SeedProjectCleanupFinalizer refusingMaster)
   \<and> seedsCleaned refusingMaster doomed seeds0 world0
   \<and> finalizerPresent (snd (Reconcile refusingMaster (Add ''master'' seeds0) ''p1'' world0)) ''master'' ''p1''
        (SeedProjectCleanupFinalizer refusingMaster)
   \<and> fst (Reconcile refusingMaster (Add ''master'' seeds0) ''p1'' world0)
       = Some (WrapError
           (''handling deletion: failed to remove project finalizer cleanup-seed-projects: conflict'')
           (WrapError (''failed to remove project finalizer cleanup-seed-projects: conflict'')
              (StatusError InternalError ''conflict'')))"
proof -
  let ?F = "''cleanup-seed-projects''"
  let ?fan = "iterate (syncAllSeeds_body (deleteAction refusingMaster) doomed) seeds0 world0"
  have get: "clientGet refusingMaster ''master'' ''p1'' world0 = Inr doomed"
    by (simp add: doomed_facts deps_fields)
  have cleaned: "seedsCleaned refusingMaster doomed seeds0 world0"
    by (simp add: seedsCleaned_faults deps_fields seeds0_def)
  have name: "ProjectName doomed = ''p1''"
    by (simp add: doomed_def)
  have before: "finalizerPresent world0 ''master'' (ProjectName doomed) ?F"
    by (simp add: finalizerPresent_def world0_def lookupProject_def doomed_def HasFinalizer_def)
  note fan = delete_fan_out [OF before, of refusingMaster seeds0]
  obtain w' where through: "?fan = (Continue, w')"
    using fan cleaned by auto
  have present: "finalizerPresent w' ''master'' (ProjectName doomed) ?F"
    using fan through by simp
  note patch = remove_finalizer_patch [OF present doomed_finalizer, of refusingMaster]
  obtain res w'' where patched:
    "projectPatch refusingMaster ''master'' (RemoveFinalizer doomed ?F) doomed w' = (res, w'')"
    by (cases "projectPatch refusingMaster ''master'' (RemoveFinalizer doomed ?F) doomed w'")
  have res: "res = Some (StatusError InternalError ''conflict'')"
    using patch(1) patched by (simp add: deps_fields refused_def)
  have kept: "finalizerPresent w'' ''master'' ''p1'' ?F"
    using patch(2) patched by (simp add: deps_fields name)
  have "handleDeletion refusingMaster (Add ''master'' seeds0) doomed world0
      = (Some (WrapError (''failed to remove project finalizer cleanup-seed-projects: conflict'')
                 (StatusError InternalError ''conflict'')), w'')"
    using through patched res
    by (simp add: handleDeletion_def syncAllSeeds_def forEach_def Add_def Let_def deps_fields
        doomed_finalizer)
  then have "Reconcile refusingMaster (Add ''master'' seeds0) ''p1'' world0
      = (Some (WrapError
           (''handling deletion: failed to remove project finalizer cleanup-seed-projects: conflict'')
           (WrapError (''failed to remove project finalizer cleanup-seed-projects: conflict'')
              (StatusError InternalError ''conflict''))), w'')"
    using get doomed_deleting by (simp add: Reconcile_def Add_def)
  then show ?thesis
    using get doomed_deleting cleaned kept by (simp add: deps_fields doomed_finalizer)
qed

section \<open>The fan-out over the seeds\<close>

lemma syncAllSeeds_body_fails:
  "action seedClient project w1 = (Some err, w2)
   \<Longrightarrow> syncAllSeeds_body action project (seedName, seedClient) w1
     = (Return (Some (WrapError (''failed syncing project for seed '' @ seedName @ '': '' @ Error err) err)),
        w2)"
  by (simp add: syncAllSeeds_body_def)

lemma delete_fan_out_patches:
  "filter isPatch (calls (snd (iterate (syncAllSeeds_body (deleteAction d) project) seeds w)))
    = filter isPatch (calls w)"
proof (induction seeds arbitrary: w)
  case Nil
  show ?case by simp
next
  case (Cons seed seeds)
  obtain n cl where seed: "seed = (n, cl)"
    by (cases seed)
  obtain res w' where action: "deleteAction d cl project w = (res, w')"
    by (cases "deleteAction d cl project w")
  have "filter isPatch (calls w') = filter isPatch (calls w)"
    using action deleteAction_snd [of d cl project w] by (simp add: projectDelete_patches)
  then show ?case
    using action Cons.IH [of w'] by (cases res) (simp_all add: syncAllSeeds_body_def seed)
qed

lemma delete_fan_out_prefix:
  assumes "finalizerPresent w m (ProjectName project) finalizer"
    and "iterate (syncAllSeeds_body (deleteAction d) project) pre w = (Continue, w1)"
  shows "finalizerPresent (snd (deleteAction d seedClient project w1)) m (ProjectName project) finalizer"
    and "filter isPatch (calls (snd (deleteAction d seedClient project w1))) = filter isPatch (calls w)"
proof -
  have "finalizerPresent w1 m (ProjectName project) finalizer"
    and patches: "filter isPatch (calls w1) = filter isPatch (calls w)"
    using delete_fan_out [OF assms(1), of d pre] assms(2) by simp_all
  then show "finalizerPresent (snd (deleteAction d seedClient project w1)) m (ProjectName project) finalizer"
    by (simp add: deleteAction_snd projectDelete_finalizerPresent)
  show "filter isPatch (calls (snd (deleteAction d seedClient project w1))) = filter isPatch (calls w)"
    using patches by (simp add: deleteAction_snd projectDelete_patches)
qed

text \<open>
  C6. In the fan-out over the registered seeds, the first seed whose action returns an
  error ends the pass: \<^verbatim>\<open>syncAllSeeds\<close> returns that error wrapped with the name of the
  seed, in the world the failing action left, whatever seeds are registered after it. In
  the deletion pass \<^verbatim>\<open>Reconcile\<close> returns that error (wrapped once more) in that same
  world: no Project has been patched, and a cleanup finalizer the Project carried is still
  on the control-plane copy. In the active pass, which starts by adding the finalizer
  where it is missing, \<^verbatim>\<open>Reconcile\<close> records a warning event and returns the error
  (wrapped once more).
\<close>

theorem fan_out_stops_at_first_failure:
  assumes "clientGet d (masterAPIClient r) request w = Inr project"
    and "if IsZero (DeletionTimestamp project) \<and> \<not> HasFinalizer project (SeedProjectCleanupFinalizer d)
         then project' = AddFinalizer project (SeedProjectCleanupFinalizer d)
              \<and> projectUpdate d (masterClient r) project' w = (None, w0)
         else project' = project \<and> w0 = w"
    and "action = (if IsZero (DeletionTimestamp project) then syncAction d request else deleteAction d)"
    and "seedClients r = pre @ (seedName, seedClient) # rest"
    and "iterate (syncAllSeeds_body action project') pre w0 = (Continue, w1)"
    and "action seedClient project' w1 = (Some err, w2)"
    and "wrapped = WrapError (''failed syncing project for seed '' @ seedName @ '': '' @ Error err) err"
  shows "syncAllSeeds r project' action w0 = (Some wrapped, w2)
    \<and> (\<forall>others. forEach (syncAllSeeds_body action project') (pre @ (seedName, seedClient) # others) w0
          = (Some wrapped, w2))
    \<and> (\<not> IsZero (DeletionTimestamp project) \<longrightarrow>
          Reconcile d r request w = (Some (WrapError (''handling deletion: '' @ Error wrapped) wrapped), w2)
          \<and> filter isPatch (calls w2) = filter isPatch (calls w)
          \<and> (HasFinalizer project (SeedProjectCleanupFinalizer d) \<longrightarrow>
                finalizerPresent w2 (masterAPIClient r) request (SeedProjectCleanupFinalizer d)))
    \<and> (IsZero (DeletionTimestamp project) \<longrightarrow>
          Reconcile d r request w
            = (Some (WrapError (''reconciled project: '' @ ProjectName project' @ '': '' @ Error wrapped)
                       wrapped),
               Eventf project' ''Warning'' ''ReconcilingError'' (Error wrapped) w2))"
proof -
  let ?F = "SeedProjectCleanupFinalizer d"
  have body: "syncAllSeeds_body action project' (seedName, seedClient) w1 = (Return (Some wrapped), w2)"
    using assms(6,7) by (simp add: syncAllSeeds_body_fails)
  have stops: "forEach (syncAllSeeds_body action project') (pre @ (seedName, seedClient) # others) w0
      = (Some wrapped, w2)" for others
    using assms(5) body by (simp add: forEach_def iterate_append)
  then have fan: "syncAllSeeds r project' action w0 = (Some wrapped, w2)"
    by (simp add: syncAllSeeds_def assms(4))
  have deleting: "Reconcile d r request w = (Some (WrapError (''handling deletion: '' @ Error wrapped) wrapped), w2)
      \<and> filter isPatch (calls w2) = filter isPatch (calls w)
      \<and> (HasFinalizer project ?F \<longrightarrow> finalizerPresent w2 (masterAPIClient r) request ?F)"
    if deleted: "\<not> IsZero (DeletionTimestamp project)"
  proof -
    have same: "project' = project" "w0 = w" "action = deleteAction d"
      using assms(2,3) deleted by simp_all
    have "handleDeletion d r project w = (Some wrapped, w2)"
      using fan by (simp add: handleDeletion_def same)
    then have result: "Reconcile d r request w
        = (Some (WrapError (''handling deletion: '' @ Error wrapped) wrapped), w2)"
      using assms(1) deleted by (simp add: Reconcile_def)
    have name: "ProjectName project = request"
      using assms(1) by (rule clientGet_found)
    have w2: "w2 = snd (deleteAction d seedClient project w1)"
      using assms(6) same by simp
    have reach: "iterate (syncAllSeeds_body (deleteAction d) project) pre w = (Continue, w1)"
      using assms(5) same by simp
    have patches: "filter isPatch (calls w2) = filter isPatch (calls w)"
      using delete_fan_out_patches [of d project pre w] reach
      by (simp add: w2 deleteAction_snd projectDelete_patches)
    have "finalizerPresent w2 (masterAPIClient r) request ?F" if held: "HasFinalizer project ?F"
    proof -
      have "finalizerPresent w (masterAPIClient r) (ProjectName project) ?F"
        using clientGet_found(1) [OF assms(1)] held by (simp add: finalizerPresent_def name)
      then show ?thesis
        using reach by (simp add: w2 delete_fan_out_prefix(1) flip: name)
    qed
    then show ?thesis
      using result patches by simp
  qed
  have running: "Reconcile d r request w
      = (Some (WrapError (''reconciled project: '' @ ProjectName project' @ '': '' @ Error wrapped) wrapped),
         Eventf project' ''Warning'' ''ReconcilingError'' (Error wrapped) w2)"
    if alive: "IsZero (DeletionTimestamp project)"
  proof -
    have action: "action = syncAction d request"
      using assms(3) alive by simp
    show ?thesis
    proof (cases "HasFinalizer project ?F")
      case True
      then have "project' = project" "w0 = w"
        using assms(2) by simp_all
      then show ?thesis
        using assms(1) alive True fan by (simp add: Reconcile_def action)
    next
      case False
      then have added: "project' = AddFinalizer project ?F"
        and "projectUpdate d (masterClient r) project' w = (None, w0)"
        using assms(2) alive by auto
      then have "projectUpdate d (masterClient r) (AddFinalizer project ?F) w = (None, w0)"
        by simp
      then show ?thesis
        using assms(1) alive False fan by (simp add: Reconcile_def action Let_def added)
    qed
  qed
  show ?thesis
    using fan stops deleting running by blast
qed

lemma deleteAction_refused:
  "requestFault d cl (DeleteProject project) = Some msg
   \<Longrightarrow> deleteAction d cl project w = (Some (refused msg), called cl (DeleteProject project) w)"
  by (simp add: deleteAction_def projectDelete_def Let_def refused_def)

lemma seedADeleted_calls: "calls seedADeleted = [(''seed-a'', DeleteProject doomed)]"
  by (simp add: seedADeleted_def deleteAction_snd projectDelete_def Let_def deps_fields called_def
      calls_stored world0_def split: option.splits)

lemma seedASynced_result:
  "syncAction deps0 ''p1'' ''seed-a'' active world1 = (None, seedASynced)"
  "calls seedASynced = [(''seed-a'', PatchProjectStatus seedCopy seedCopy)]"
  "lookupProject ''p1'' (projects seedASynced ''seed-b'') = None"
proof -
  have get: "clientGet deps0 ''seed-a'' ''p1'' world1 = Inr seedCopy"
    by (simp add: clientGet_def deps0_def world1_def lookupProject_def seedCopy_def)
  have same: "seedCopy\<lparr>ProjectStatus := ProjectStatus active\<rparr> = seedCopy"
    by (simp add: seedCopy_def active_def)
  have stub: "ReconcileKubermaticV1Projects deps0 active ''seed-a'' w = (None, w)" for w
    by (simp add: deps0_def)
  have patch: "projectStatusPatch deps0 ''seed-a'' seedCopy seedCopy world1
      = (None, stored ''seed-a'' (mergeStatusFrom seedCopy seedCopy seedCopy)
                 (called ''seed-a'' (PatchProjectStatus seedCopy seedCopy) world1))"
    by (simp add: projectStatusPatch_def Let_def deps0_def)
       (simp add: world1_def lookupProject_def seedCopy_def)
  have action: "syncAction deps0 ''p1'' ''seed-a'' active world1
      = (None, stored ''seed-a'' (mergeStatusFrom seedCopy seedCopy seedCopy)
                 (called ''seed-a'' (PatchProjectStatus seedCopy seedCopy) world1))"
    by (simp add: syncAction_def stub get same patch)
  then show "syncAction deps0 ''p1'' ''seed-a'' active world1 = (None, seedASynced)"
    by (simp add: seedASynced_def)
  show "calls seedASynced = [(''seed-a'', PatchProjectStatus seedCopy seedCopy)]"
    unfolding seedASynced_def action by (simp add: calls_stored called_def world1_def)
  show "lookupProject ''p1'' (projects seedASynced ''seed-b'') = None"
    unfolding seedASynced_def action
    by (simp add: projects_stored_other projects_called world1_def lookupProject_def)
qed

theorem fan_out_stops_at_first_failure_witness:
  "clientGet refusingSeedB (masterAPIClient (Add ''master'' seeds0)) ''p1'' world0 = Inr doomed
   \<and> (if IsZero (DeletionTimestamp doomed) \<and> \<not> HasFinalizer doomed (SeedProjectCleanupFinalizer refusingSeedB)
       then doomed = AddFinalizer doomed (SeedProjectCleanupFinalizer refusingSeedB)
            \<and> projectUpdate refusingSeedB (masterClient (Add ''master'' seeds0)) doomed world0 = (None, world0)
       else doomed = doomed \<and> world0 = world0)
   \<and> seedClients (Add ''master'' seeds0) = [(''a'', ''seed-a'')] @ (''b'', ''seed-b'') # [(''c'', ''seed-c'')]
   \<and> iterate (syncAllSeeds_body (deleteAction refusingSeedB) doomed) [(''a'', ''seed-a'')] world0
       = (Continue, seedADeleted)
   \<and> deleteAction refusingSeedB ''seed-b'' doomed seedADeleted
       = (Some (StatusError InternalError ''unavailable''),
          called ''seed-b'' (DeleteProject doomed) seedADeleted)
   \<and> Reconcile refusingSeedB (Add ''master'' seeds0) ''p1'' world0
       = (Some (WrapError ''handling deletion: failed syncing project for seed b: unavailable''
                  (WrapError ''failed syncing project for seed b: unavailable''
                     (StatusError InternalError ''unavailable''))),
          called ''seed-b'' (DeleteProject doomed) seedADeleted)
   \<and> calls (called ''seed-b'' (DeleteProject doomed) seedADeleted)
       = [(''seed-a'', DeleteProject doomed), (''seed-b'', DeleteProject doomed)]
   \<and> finalizerPresent (called ''seed-b'' (DeleteProject doomed) seedADeleted)
        (masterAPIClient (Add ''master'' seeds0)) ''p1'' (SeedProjectCleanupFinalizer refusingSeedB)
   \<and> clientGet deps0 (masterAPIClient (Add ''master'' seeds0)) ''p1'' world1 = Inr active
   \<and> (if IsZero (DeletionTimestamp active) \<and> \<not> HasFinalizer active (SeedProjectCleanupFinalizer deps0)
       then active = AddFinalizer active (SeedProjectCleanupFinalizer deps0)
            \<and> projectUpdate deps0 (masterClient (Add ''master'' seeds0)) active world1 = (None, world1)
       else active = active \<and> world1 = world1)
   \<and> iterate (syncAllSeeds_body (syncAction deps0 ''p1'') active) [(''a'', ''seed-a'')] world1
       = (Continue, seedASynced)
   \<and> syncAction deps0 ''p1'' ''seed-b'' active seedASynced
       = (Some (WrapError ''failed to fetch project on seed cluster: p1 not found''
                  (StatusError NotFound ''p1 not found'')), seedASynced)
   \<and> Reconcile deps0 (Add ''master'' seeds0) ''p1'' world1
       = (Some (WrapError
            (''reconciled project: p1: failed syncing project for seed b: ''
             @ ''failed to fetch project on seed cluster: p1 not found'')
            (WrapError
               (''failed syncing project for seed b: ''
                @ ''failed to fetch project on seed cluster: p1 not found'')
               (WrapError ''failed to fetch project on seed cluster: p1 not found''
                  (StatusError NotFound ''p1 not found'')))),
          Eventf active ''Warning'' ''ReconcilingError''
            (''failed syncing project for seed b: ''
             @ ''failed to fetch project on seed cluster: p1 not found'') seedASynced)
   \<and> calls seedASynced = [(''seed-a'', PatchProjectStatus seedCopy seedCopy)]"
proof -
  let ?r = "Add ''master'' seeds0"
  have get: "clientGet refusingSeedB (masterAPIClient ?r) ''p1'' world0 = Inr doomed"
    by (simp add: Add_def doomed_facts deps_fields)
  have start: "if IsZero (DeletionTimestamp doomed)
        \<and> \<not> HasFinalizer doomed (SeedProjectCleanupFinalizer refusingSeedB)
      then doomed = AddFinalizer doomed (SeedProjectCleanupFinalizer refusingSeedB)
           \<and> projectUpdate refusingSeedB (masterClient ?r) doomed world0 = (None, world0)
      else doomed = doomed \<and> world0 = world0"
    using doomed_deleting by simp
  have action: "deleteAction refusingSeedB
      = (if IsZero (DeletionTimestamp doomed) then syncAction refusingSeedB ''p1''
         else deleteAction refusingSeedB)"
    using doomed_deleting by simp
  have seeds: "seedClients ?r = [(''a'', ''seed-a'')] @ (''b'', ''seed-b'') # [(''c'', ''seed-c'')]"
    by (simp add: Add_def seeds0_def)
  have "fst (deleteAction refusingSeedB ''seed-a'' doomed world0) = None"
    by (simp add: deleteAction_answer deps_fields)
  then have reach: "iterate (syncAllSeeds_body (deleteAction refusingSeedB) doomed) [(''a'', ''seed-a'')]
      world0 = (Continue, seedADeleted)"
    by (cases "deleteAction refusingSeedB ''seed-a'' doomed world0")
       (simp add: syncAllSeeds_body_def seedADeleted_def)
  have fails: "deleteAction refusingSeedB ''seed-b'' doomed seedADeleted
      = (Some (StatusError InternalError ''unavailable''),
         called ''seed-b'' (DeleteProject doomed) seedADeleted)"
    using deleteAction_refused [of refusingSeedB "''seed-b''" doomed "''unavailable''" seedADeleted]
    by (simp add: deps_fields refused_def)
  note deletion = fan_out_stops_at_first_failure [OF get start action seeds reach fails refl]
  have calls: "calls (called ''seed-b'' (DeleteProject doomed) seedADeleted)
      = [(''seed-a'', DeleteProject doomed), (''seed-b'', DeleteProject doomed)]"
    by (simp add: called_def seedADeleted_calls)
  have get': "clientGet deps0 (masterAPIClient ?r) ''p1'' world1 = Inr active"
    by (simp add: Add_def clientGet_def deps0_def world1_def lookupProject_def active_def doomed_def)
  have alive: "IsZero (DeletionTimestamp active)"
    by (simp add: IsZero_def active_def)
  have held: "HasFinalizer active (SeedProjectCleanupFinalizer deps0)"
    by (simp add: HasFinalizer_def active_def doomed_def deps0_def)
  have start': "if IsZero (DeletionTimestamp active) \<and> \<not> HasFinalizer active (SeedProjectCleanupFinalizer deps0)
      then active = AddFinalizer active (SeedProjectCleanupFinalizer deps0)
           \<and> projectUpdate deps0 (masterClient ?r) active world1 = (None, world1)
      else active = active \<and> world1 = world1"
    using held by simp
  have action': "syncAction deps0 ''p1''
      = (if IsZero (DeletionTimestamp active) then syncAction deps0 ''p1'' else deleteAction deps0)"
    using alive by simp
  have reach': "iterate (syncAllSeeds_body (syncAction deps0 ''p1'') active) [(''a'', ''seed-a'')] world1
      = (Continue, seedASynced)"
    by (simp add: syncAllSeeds_body_def seedASynced_result)
  have fails': "syncAction deps0 ''p1'' ''seed-b'' active seedASynced
      = (Some (WrapError ''failed to fetch project on seed cluster: p1 not found''
                 (StatusError NotFound ''p1 not found'')), seedASynced)"
  proof -
    have "ReconcileKubermaticV1Projects deps0 active ''seed-b'' seedASynced = (None, seedASynced)"
      by (simp add: deps0_def)
    moreover have "clientGet deps0 ''seed-b'' ''p1'' seedASynced = Inl (StatusError NotFound ''p1 not found'')"
      by (simp add: clientGet_def deps_fields seedASynced_result notFound_def)
    ultimately show ?thesis
      by (simp add: syncAction_def)
  qed
  note running = fan_out_stops_at_first_failure [OF get' start' action' seeds reach' fails' refl]
  have name: "ProjectName active = ''p1''"
    by (simp add: active_def doomed_def)
  show ?thesis
    using deletion running get start seeds reach fails calls get' start' reach' fails' alive
      doomed_deleting seedASynced_result(2)
    by (simp add: deps_fields doomed_finalizer name)
qed

section \<open>The seed watch\<close>

text \<open>
  C10. When listing the Projects fails, the handler of the seed watch logs the error
  (once as it is, once wrapped for \<^verbatim>\<open>HandleError\<close>) and returns no request: nothing
  but the log tells the caller. When the listing succeeds, it returns one request for
  every Project.
\<close>

theorem failed_list_enqueues_nothing:
  "(\<forall>err. clientList d cl w = Inl err \<longrightarrow>
      enqueueAllProjects d cl w
        = ([], w\<lparr>errorLog := errorLog w @ [err, WrapError (''failed to list projects: '' @ Error err) err]\<rparr>))
   \<and> (\<forall>items. clientList d cl w = Inr items \<longrightarrow>
        enqueueAllProjects d cl w = (map ProjectName items, w))"
  by (simp add: enqueueAllProjects_def)

theorem failed_list_enqueues_nothing_witness:
  "clientList refusingList ''master'' world1 = Inl (StatusError InternalError ''unavailable'')
   \<and> enqueueAllProjects refusingList ''master'' world1
       = ([], world1\<lparr>errorLog :=
                [StatusError InternalError ''unavailable'',
                 WrapError ''failed to list projects: unavailable''
                   (StatusError InternalError ''unavailable'')]\<rparr>)
   \<and> clientList deps0 ''master'' world1 = Inr [active]
   \<and> enqueueAllProjects deps0 ''master'' world1 = ([''p1''], world1)"
proof -
  have failing: "clientList refusingList ''master'' world1 = Inl (StatusError InternalError ''unavailable'')"
    by (simp add: clientList_def refusingList_def refused_def)
  have listing: "clientList deps0 ''master'' world1 = Inr [active]"
    by (simp add: clientList_def deps0_def world1_def)
  have log: "errorLog world1 = []"
    by (simp add: world1_def)
  have name: "ProjectName active = ''p1''"
    by (simp add: active_def doomed_def)
  show ?thesis
    using failed_list_enqueues_nothing [of refusingList "''master''" world1]
      failed_list_enqueues_nothing [of deps0 "''master''" world1] failing listing
    by (simp add: log name)
qed

end
